theory Spec2Isabelle
  imports Complex_Main "HOL-Library.Word"
begin

section \<open>JavaScript strings\<close>

text \<open>
  A JavaScript string is a sequence of 16-bit code units; \<open>length\<close>, \<open>slice\<close>,
  \<open>split\<close>, \<open>trim\<close> and a regular expression without the \<open>u\<close> flag all
  work on code units. String literals of the source that are plain ASCII are written
  with \<open>js\<close>; the few characters beyond ASCII are given by their code unit.
\<close>

type_synonym code_unit = "16 word"
type_synonym jsstr = "code_unit list"

definition js :: "string \<Rightarrow> jsstr" where
  "js s = map (\<lambda>c. of_nat (of_char c)) s"

text \<open>
  The characters \<open>String.prototype.trim\<close> strips and the class \<open>\s\<close> matches:
  ECMAScript's WhiteSpace (TAB, VT, FF, SP, NBSP, ZWNBSP and the Unicode space
  separators) and LineTerminator (LF, CR, LS, PS).
\<close>

definition is_space :: "code_unit \<Rightarrow> bool" where
  "is_space c \<longleftrightarrow>
     c = 0x09 \<or> c = 0x0A \<or> c = 0x0B \<or> c = 0x0C \<or> c = 0x0D \<or> c = 0x20 \<or>
     c = 0xA0 \<or> c = 0x1680 \<or> (0x2000 \<le> c \<and> c \<le> 0x200A) \<or>
     c = 0x2028 \<or> c = 0x2029 \<or> c = 0x202F \<or> c = 0x205F \<or> c = 0x3000 \<or>
     c = 0xFEFF"

definition trim :: "jsstr \<Rightarrow> jsstr" where
  "trim s = rev (dropWhile is_space (rev (dropWhile is_space s)))"

text \<open>\<open>s.split(sep)\<close> for a separator of one code unit: never the empty list.\<close>

fun split :: "code_unit \<Rightarrow> jsstr \<Rightarrow> jsstr list" where
  "split sep [] = [[]]"
| "split sep (c # cs) =
     (if c = sep then [] # split sep cs
      else (case split sep cs of
              [] \<Rightarrow> [[c]]
            | w # ws \<Rightarrow> (c # w) # ws))"

text \<open>\<open>xs.join(sep)\<close> on an array of strings.\<close>

fun join :: "jsstr \<Rightarrow> jsstr list \<Rightarrow> jsstr" where
  "join sep [] = []"
| "join sep [x] = x"
| "join sep (x # y # ys) = x @ sep @ join sep (y # ys)"

text \<open>\<open>s.slice(0, n)\<close>: the first \<open>n\<close> code units.\<close>

definition slice0 :: "nat \<Rightarrow> jsstr \<Rightarrow> jsstr" where
  "slice0 n s = take n s"

text \<open>\<open>s.replace(/</g, "&lt;")\<close>.\<close>

definition escape_lt :: "jsstr \<Rightarrow> jsstr" where
  "escape_lt s = concat (map (\<lambda>c. if c = 0x3C then js ''&lt;'' else [c]) s)"

section \<open>Evidence extractor\<close>

text \<open>
  The regular expression \<^verbatim>\<open>/https?:\/\/[^\s]+/i\<close>. Without the \<open>u\<close> flag, ignoring
  case relates a letter of the pattern to its two ASCII forms only. \<open>scheme_at\<close> is the
  attempt at one position: \<open>http\<close>, an optional \<open>s\<close>, \<open>://\<close>, and then the longest
  run of characters that are not white space, which must not be empty. After
  \<open>http\<close> followed by \<open>s\<close> the alternative without the \<open>s\<close> cannot succeed
  (it needs \<open>:\<close> where the \<open>s\<close> stands), so no backtracking is lost.
\<close>

definition ci :: "code_unit \<Rightarrow> code_unit \<Rightarrow> code_unit \<Rightarrow> bool" where
  "ci lower upper c \<longleftrightarrow> c = lower \<or> c = upper"

definition url_tail :: "jsstr \<Rightarrow> jsstr \<Rightarrow> jsstr option" where
  "url_tail scheme r =
     (case r of
        c1 # c2 # c3 # rest \<Rightarrow>
          (if c1 = 0x3A \<and> c2 = 0x2F \<and> c3 = 0x2F \<and> takeWhile (\<lambda>c. \<not> is_space c) rest \<noteq> []
           then Some (scheme @ [c1, c2, c3] @ takeWhile (\<lambda>c. \<not> is_space c) rest)
           else None)
      | _ \<Rightarrow> None)"

definition scheme_at :: "jsstr \<Rightarrow> jsstr option" where
  "scheme_at s =
     (case s of
        h # t1 # t2 # p # r \<Rightarrow>
          (if ci 0x68 0x48 h \<and> ci 0x74 0x54 t1 \<and> ci 0x74 0x54 t2 \<and> ci 0x70 0x50 p
           then (case r of
                   c # r' \<Rightarrow>
                     (if ci 0x73 0x53 c then url_tail [h, t1, t2, p, c] r'
                      else url_tail [h, t1, t2, p] r)
                 | [] \<Rightarrow> None)
           else None)
      | _ \<Rightarrow> None)"

text \<open>\<open>line.match(re)\<close>: the leftmost position where the attempt succeeds;
  \<open>None\<close> is JavaScript's \<open>null\<close>, \<open>Some m\<close> is \<open>match[0]\<close>.\<close>

fun url_match :: "jsstr \<Rightarrow> jsstr option" where
  "url_match [] = None"
| "url_match (c # cs) =
     (case scheme_at (c # cs) of
        Some m \<Rightarrow> Some m
      | None \<Rightarrow> url_match cs)"

text \<open>
  \<open>new Set(urls)\<close> keeps its members in insertion order and ignores a value it already
  holds; \<open>[...set]\<close> lists them in that order.
\<close>

definition set_add :: "'a list \<Rightarrow> 'a \<Rightarrow> 'a list" where
  "set_add acc x = (if x \<in> set acc then acc else acc @ [x])"

definition new_Set :: "'a list \<Rightarrow> 'a list" where
  "new_Set xs = foldl set_add [] xs"

text \<open>The loop \<open>for (const line of lines) { ... urls.push(match[0]) }\<close>.\<close>

fun push_matches :: "jsstr list \<Rightarrow> jsstr list \<Rightarrow> jsstr list" where
  "push_matches urls [] = urls"
| "push_matches urls (line # lines) =
     (case url_match line of
        Some m \<Rightarrow> push_matches (urls @ [m]) lines
      | None \<Rightarrow> push_matches urls lines)"

definition text_lines :: "jsstr \<Rightarrow> jsstr list" where
  "text_lines t = filter (\<lambda>l. l \<noteq> []) (map trim (split 0x0A t))"

text \<open>
  \<open>extractUrls(text)\<close>. Its only caller passes the \<open>value\<close> of the evidence field,
  a string, or \<open>undefined\<close> when the element has no such property, or the empty string
  when the element is missing: \<open>None\<close> stands for \<open>null\<close> and \<open>undefined\<close>.
\<close>

definition extractUrls :: "jsstr option \<Rightarrow> jsstr list" where
  "extractUrls text_in =
     (case text_in of
        None \<Rightarrow> []
      | Some t \<Rightarrow>
          (if t = [] then []
           else new_Set (push_matches [] (text_lines t))))"

text \<open>
  The array \<open>urls\<close> as the loop leaves it, before duplicates are dropped, and the
  position at which a value first occurs in a list.
\<close>

definition urls_pushed :: "jsstr \<Rightarrow> jsstr list" where
  "urls_pushed t = push_matches [] (text_lines t)"

definition first_index :: "'a \<Rightarrow> 'a list \<Rightarrow> nat" where
  "first_index x xs = length (takeWhile (\<lambda>y. y \<noteq> x) xs)"

section \<open>JavaScript values\<close>

subsection \<open>Numbers\<close>

text \<open>
  A JavaScript number is a double: \<open>NaN\<close>, an infinity, or a finite value, which is a
  rational. The finite values are modelled by all rationals, a superset of the doubles;
  \<open>Math.round\<close>, \<open>Math.min\<close>, \<open>Math.max\<close> and the comparisons are exact on
  doubles, so they are the rational operations. The sign of zero is not modelled: it is
  visible neither in \<open>String(x)\<close> nor in a comparison.
\<close>

datatype jsnum = NaN | PosInf | NegInf | Fin rat

text \<open>\<open>a <= b\<close>; every comparison with \<open>NaN\<close> is false.\<close>

fun num_le :: "jsnum \<Rightarrow> jsnum \<Rightarrow> bool" where
  "num_le NaN b = False"
| "num_le a NaN = False"
| "num_le NegInf b = True"
| "num_le a PosInf = True"
| "num_le PosInf b = False"
| "num_le a NegInf = False"
| "num_le (Fin x) (Fin y) = (x \<le> y)"

text \<open>\<open>a >= b\<close> and \<open>a < b\<close>.\<close>

definition num_ge :: "jsnum \<Rightarrow> jsnum \<Rightarrow> bool" where
  "num_ge a b = num_le b a"

definition num_lt :: "jsnum \<Rightarrow> jsnum \<Rightarrow> bool" where
  "num_lt a b \<longleftrightarrow> num_le a b \<and> a \<noteq> b"

text \<open>\<open>Math.round\<close>: the nearest integer, a tie going up.\<close>

definition Math_round :: "jsnum \<Rightarrow> jsnum" where
  "Math_round x = (case x of Fin r \<Rightarrow> Fin (of_int \<lfloor>r + 1 / 2\<rfloor>) | _ \<Rightarrow> x)"

definition Math_min :: "jsnum \<Rightarrow> jsnum \<Rightarrow> jsnum" where
  "Math_min a b = (if a = NaN \<or> b = NaN then NaN else if num_le a b then a else b)"

definition Math_max :: "jsnum \<Rightarrow> jsnum \<Rightarrow> jsnum" where
  "Math_max a b = (if a = NaN \<or> b = NaN then NaN else if num_le a b then b else a)"

text \<open>Decimal digits of a natural number and of an integer.\<close>

fun digits :: "nat \<Rightarrow> jsstr" where
  "digits n = (if n < 10 then [of_nat (48 + n)] else digits (n div 10) @ [of_nat (48 + n mod 10)])"

declare digits.simps [simp del]

definition int_to_string :: "int \<Rightarrow> jsstr" where
  "int_to_string i = (if i < 0 then js ''-'' @ digits (nat (- i)) else digits (nat i))"

subsection \<open>Parsed JSON\<close>

text \<open>
  What \<open>JSON.parse\<close> returns: \<open>null\<close>, a boolean, a number, a string, an array, or a
  plain object, given by its own properties (the first binding of a key is the
  property). \<open>undefined\<close> is not a JSON value: an expression that may be
  \<open>undefined\<close> has type \<open>json option\<close>, with \<open>None\<close> for \<open>undefined\<close>.
\<close>

datatype json =
    JNull
  | JBool bool
  | JNum jsnum
  | JStr jsstr
  | JArr "json list"
  | JObj "(jsstr \<times> json) list"

text \<open>
  \<open>data?.key\<close>, for the keys the program reads (\<open>error\<close>, \<open>raw\<close>, \<open>score\<close>,
  \<open>confidence\<close>, \<open>verdict\<close>, \<open>badge\<close>, \<open>why\<close>, \<open>citations\<close>): none of them is
  a property of a prototype, so the read finds an own property of an object or
  \<open>undefined\<close>. On \<open>null\<close> the optional chain gives \<open>undefined\<close>.
\<close>

definition get_prop :: "json \<Rightarrow> jsstr \<Rightarrow> json option" where
  "get_prop d k = (case d of JObj kv \<Rightarrow> map_of kv k | _ \<Rightarrow> None)"

text \<open>\<open>ToBoolean\<close>, the test of \<open>if\<close>, \<open>!\<close>, \<open>||\<close> and \<open>?:\<close>.\<close>

definition truthy :: "json option \<Rightarrow> bool" where
  "truthy v =
     (case v of
        None \<Rightarrow> False
      | Some JNull \<Rightarrow> False
      | Some (JBool b) \<Rightarrow> b
      | Some (JNum n) \<Rightarrow> n \<noteq> NaN \<and> n \<noteq> Fin 0
      | Some (JStr s) \<Rightarrow> s \<noteq> []
      | Some (JArr xs) \<Rightarrow> True
      | Some (JObj kv) \<Rightarrow> True)"

text \<open>\<open>a ?? b\<close> and \<open>a || b\<close>.\<close>

definition nullish :: "json option \<Rightarrow> bool" where
  "nullish v \<longleftrightarrow> v = None \<or> v = Some JNull"

definition coalesce :: "json option \<Rightarrow> json option \<Rightarrow> json option" where
  "coalesce a b = (if nullish a then b else a)"

definition or_else :: "json option \<Rightarrow> json option \<Rightarrow> json option" where
  "or_else a b = (if truthy a then a else b)"

subsection \<open>The host\<close>

text \<open>
  Built-in functions of the JavaScript engine and the browser that the program calls
  and that this development does not define: they are parameters. A TypeError's
  message is the engine's own text.
\<close>

datatype engine_error = Not_primitive | Null_property | Not_a_function | Aborted

record host =
  JSON_parse :: "jsstr \<Rightarrow> json option"
  JSON_stringify :: "json \<Rightarrow> jsstr"
  StringToNumber :: "jsstr \<Rightarrow> jsnum"
  finite_to_string :: "rat \<Rightarrow> jsstr"
  URL_hostname :: "jsstr \<Rightarrow> jsstr option"
  Date_toISOString :: jsstr
  engine_message :: "engine_error \<Rightarrow> jsstr"

text \<open>An exception object: its \<open>name\<close> and \<open>message\<close>.\<close>

record js_error =
  err_name :: jsstr
  err_message :: jsstr

definition TypeError :: "host \<Rightarrow> engine_error \<Rightarrow> js_error" where
  "TypeError h k = \<lparr>err_name = js ''TypeError'', err_message = engine_message h k\<rparr>"

text \<open>\<open>String(e)\<close> for an exception: \<open>Error.prototype.toString\<close>.\<close>

definition error_to_string :: "js_error \<Rightarrow> jsstr" where
  "error_to_string e =
     (if err_name e = [] then err_message e
      else if err_message e = [] then err_name e
      else err_name e @ js '': '' @ err_message e)"

subsection \<open>Conversions\<close>

text \<open>
  \<open>Number.prototype.toString\<close> writes the shortest digits that read back as the same
  number. A number is a double: for an integer of at most \<open>2^53\<close> in absolute value,
  these are its decimal digits; every other finite value is formatted by the host.
\<close>

definition NumberToString :: "host \<Rightarrow> jsnum \<Rightarrow> jsstr" where
  "NumberToString h n =
     (case n of
        NaN \<Rightarrow> js ''NaN''
      | PosInf \<Rightarrow> js ''Infinity''
      | NegInf \<Rightarrow> js ''-Infinity''
      | Fin r \<Rightarrow>
          (if of_int \<lfloor>r\<rfloor> = r \<and> \<bar>r\<bar> \<le> 2 ^ 53 then int_to_string \<lfloor>r\<rfloor>
           else finite_to_string h r))"

text \<open>
  \<open>String(v)\<close>. An array is joined with commas, \<open>null\<close> elements giving the empty
  string. A parsed object inherits \<open>Object.prototype.toString\<close> unless it has an own
  property \<open>toString\<close>, which, being parsed JSON, is not callable: then neither
  \<open>toString\<close> nor \<open>valueOf\<close> yields a primitive and the conversion throws.
\<close>

fun ToString :: "host \<Rightarrow> json \<Rightarrow> js_error + jsstr"
  and ToString_elems :: "host \<Rightarrow> json list \<Rightarrow> js_error + jsstr list" where
  "ToString h JNull = Inr (js ''null'')"
| "ToString h (JBool b) = Inr (if b then js ''true'' else js ''false'')"
| "ToString h (JNum n) = Inr (NumberToString h n)"
| "ToString h (JStr s) = Inr s"
| "ToString h (JArr xs) =
     (case ToString_elems h xs of
        Inl e \<Rightarrow> Inl e
      | Inr ss \<Rightarrow> Inr (join (js '','') ss))"
| "ToString h (JObj kv) =
     (if map_of kv (js ''toString'') \<noteq> None then Inl (TypeError h Not_primitive)
      else Inr (js ''[object Object]''))"
| "ToString_elems h [] = Inr []"
| "ToString_elems h (x # xs) =
     (case (if x = JNull then Inr [] else ToString h x) of
        Inl e \<Rightarrow> Inl e
      | Inr s \<Rightarrow>
          (case ToString_elems h xs of
             Inl e \<Rightarrow> Inl e
           | Inr ss \<Rightarrow> Inr (s # ss)))"

text \<open>\<open>String(v)\<close> where \<open>v\<close> may be \<open>undefined\<close>.\<close>

definition String_of :: "host \<Rightarrow> json option \<Rightarrow> js_error + jsstr" where
  "String_of h v = (case v of None \<Rightarrow> Inr (js ''undefined'') | Some x \<Rightarrow> ToString h x)"

text \<open>
  \<open>Number(v)\<close>. An array or object is first made a primitive with the hint
  \<open>number\<close>: \<open>valueOf\<close> returns the object itself, so the result is that of
  \<open>toString\<close>, read as a number; \<open>"[object Object]"\<close> reads as \<open>NaN\<close>.
\<close>

definition Number :: "host \<Rightarrow> json option \<Rightarrow> js_error + jsnum" where
  "Number h v =
     (case v of
        None \<Rightarrow> Inr NaN
      | Some JNull \<Rightarrow> Inr (Fin 0)
      | Some (JBool b) \<Rightarrow> Inr (if b then Fin 1 else Fin 0)
      | Some (JNum n) \<Rightarrow> Inr n
      | Some (JStr s) \<Rightarrow> Inr (StringToNumber h s)
      | Some (JArr xs) \<Rightarrow>
          (case ToString h (JArr xs) of
             Inl e \<Rightarrow> Inl e
           | Inr s \<Rightarrow> Inr (StringToNumber h s))
      | Some (JObj kv) \<Rightarrow>
          (if map_of kv (js ''toString'') \<noteq> None then Inl (TypeError h Not_primitive)
           else Inr NaN))"

section \<open>Configuration\<close>

definition WORKER_BASE :: jsstr where
  "WORKER_BASE = js ''https://rapid-flower-be72truthlayer.truthlayer-ai.workers.dev''"

definition CHECK_ENDPOINT :: jsstr where
  "CHECK_ENDPOINT = js ''/api/check''"

definition FETCH_TIMEOUT_MS :: nat where
  "FETCH_TIMEOUT_MS = 20000"

section \<open>Verdict from a score\<close>

record 'a verdict =
  label :: 'a
  badge :: 'a

definition verdictFromScore :: "jsnum \<Rightarrow> jsstr verdict" where
  "verdictFromScore score =
     (if num_ge score (Fin 85) then \<lparr>label = js ''Likely true'', badge = js ''Strong support''\<rparr>
      else if num_ge score (Fin 65) then \<lparr>label = js ''Mixed / uncertain'', badge = js ''Some support''\<rparr>
      else if num_ge score (Fin 40) then \<lparr>label = js ''Unclear'', badge = js ''Weak support''\<rparr>
      else \<lparr>label = js ''Unclear / likely false'', badge = js ''Low support''\<rparr>)"

section \<open>The page\<close>

text \<open>
  An element as far as the program reads and writes it: its content (\<open>textContent\<close>
  and \<open>innerHTML\<close> are two views of the same children: the last write decides),
  its class list, \<open>style.width\<close>, \<open>style.display\<close>, the attribute \<open>data-open\<close>
  and the property \<open>value\<close> (\<open>None\<close>: \<open>undefined\<close> or no attribute).
\<close>

datatype content = Text jsstr | Html jsstr

record element =
  el_content :: content
  el_classes :: "jsstr list"
  el_width :: jsstr
  el_display :: jsstr
  el_data_open :: "jsstr option"
  el_value :: "jsstr option"

text \<open>
  The elements \<open>boot\<close> looks up by id; \<open>None\<close> is an id the document does not
  have (\<open>getElementById\<close> returned \<open>null\<close>). \<open>boot\<close> wires nothing unless the check
  button and the claim input exist, so the claim input is always there; the buttons
  themselves are never written. Elements with different ids are different elements, and
  none of them is taken to lie inside another. \<open>claim_focused\<close> records
  \<open>claimInput.focus()\<close>.
\<close>

record page =
  claimInput :: element
  evidenceInput :: "element option"
  apiPill :: "element option"
  apiStatus :: "element option"
  resultTitle :: "element option"
  resultBadge :: "element option"
  scoreLabel :: "element option"
  scoreBar :: "element option"
  scorePct :: "element option"
  whyList :: "element option"
  citationsBox :: "element option"
  debugBox :: "element option"
  claim_focused :: bool

text \<open>
  \<open>setText(el, text)\<close> writes \<open>String(text ?? "")\<close>, and nothing, not even the
  conversion, when the element is missing. \<open>setText_str\<close> is the call with a string,
  which cannot throw.
\<close>

definition setText :: "host \<Rightarrow> element option \<Rightarrow> json option \<Rightarrow> js_error + element option" where
  "setText h el t =
     (case el of
        None \<Rightarrow> Inr None
      | Some e \<Rightarrow>
          (case String_of h (coalesce t (Some (JStr []))) of
             Inl err \<Rightarrow> Inl err
           | Inr s \<Rightarrow> Inr (Some (e\<lparr>el_content := Text s\<rparr>))))"

definition setText_str :: "element option \<Rightarrow> jsstr \<Rightarrow> element option" where
  "setText_str el s = map_option (\<lambda>e. e\<lparr>el_content := Text s\<rparr>) el"

definition setHTML :: "element option \<Rightarrow> jsstr \<Rightarrow> element option" where
  "setHTML el html = map_option (\<lambda>e. e\<lparr>el_content := Html html\<rparr>) el"

text \<open>
  The assignment \<open>el.style.width = w\<close>. The style declaration takes the value only
  when it parses as a width; otherwise the assignment is ignored and the width stays
  as it was. The program assigns \<open>"0%"\<close> and \<open>`${pct}%`\<close> and nothing else, so of the
  values of a width this development knows the percentages: a number (digits with an
  optional fraction and an optional exponent, after an optional \<open>+\<close>) followed by
  \<open>%\<close>. A width is not negative.
\<close>

definition is_digit :: "16 word \<Rightarrow> bool" where
  "is_digit c = (0x30 \<le> c \<and> c \<le> 0x39)"

definition css_exponent :: "jsstr \<Rightarrow> bool" where
  "css_exponent s =
     (case s of
        [] \<Rightarrow> True
      | c # t \<Rightarrow>
          (c = 0x65 \<or> c = 0x45) \<and>
          (let ds = (case t of [] \<Rightarrow> [] | x # u \<Rightarrow> if x = 0x2B \<or> x = 0x2D then u else t)
           in ds \<noteq> [] \<and> list_all is_digit ds))"

definition css_number :: "jsstr \<Rightarrow> bool" where
  "css_number s =
     (let i = takeWhile is_digit s; r = dropWhile is_digit s
      in case r of
           [] \<Rightarrow> i \<noteq> []
         | c # t \<Rightarrow>
             (if c = 0x2E
              then takeWhile is_digit t \<noteq> [] \<and> css_exponent (dropWhile is_digit t)
              else i \<noteq> [] \<and> css_exponent r))"

definition css_width :: "jsstr \<Rightarrow> bool" where
  "css_width w =
     (w \<noteq> [] \<and> last w = 0x25 \<and>
      css_number (case butlast w of [] \<Rightarrow> [] | c # t \<Rightarrow> if c = 0x2B then t else c # t))"

definition set_width :: "element option \<Rightarrow> jsstr \<Rightarrow> element option" where
  "set_width el w = (if css_width w then map_option (\<lambda>e. e\<lparr>el_width := w\<rparr>) el else el)"

subsection \<open>The status indicator\<close>

datatype conn_state = St_idle | St_checking | St_ok | St_error

definition state_name :: "conn_state \<Rightarrow> jsstr" where
  "state_name st =
     (case st of
        St_idle \<Rightarrow> js ''idle''
      | St_checking \<Rightarrow> js ''checking''
      | St_ok \<Rightarrow> js ''ok''
      | St_error \<Rightarrow> js ''error'')"

text \<open>\<open>classList.remove("ok", "error", "checking")\<close> and \<open>classList.add(c)\<close>.\<close>

definition remove_state_classes :: "jsstr list \<Rightarrow> jsstr list" where
  "remove_state_classes cs =
     filter (\<lambda>c. c \<noteq> js ''ok'' \<and> c \<noteq> js ''error'' \<and> c \<noteq> js ''checking'') cs"

definition class_add :: "jsstr list \<Rightarrow> jsstr \<Rightarrow> jsstr list" where
  "class_add cs c = (if c \<in> set cs then cs else cs @ [c])"

definition mark :: "conn_state \<Rightarrow> element \<Rightarrow> element" where
  "mark st e =
     e\<lparr>el_classes :=
         (if st = St_idle then remove_state_classes (el_classes e)
          else class_add (remove_state_classes (el_classes e)) (state_name st))\<rparr>"

definition setStatus :: "page \<Rightarrow> conn_state \<Rightarrow> jsstr \<Rightarrow> page" where
  "setStatus p st detail =
     p\<lparr>apiPill := map_option (mark st) (apiPill p),
       apiStatus :=
         setText_str (map_option (mark st) (apiStatus p))
           (if detail = [] then state_name st else detail)\<rparr>"

text \<open>The connectivity state: what the two indicator elements show.\<close>

definition connectivity :: "page \<Rightarrow> element option \<times> element option" where
  "connectivity p = (apiPill p, apiStatus p)"

section \<open>Transport\<close>

text \<open>
  A response: its status, its status text, and what reading the body gives
  (\<open>res.text()\<close> resolves with the text or rejects with a TypeError of the given
  message). \<open>res.ok\<close> is the browser's: a status from 200 to 299.
\<close>

datatype body_read = Body jsstr | Body_fails jsstr

record response =
  res_status :: nat
  res_statusText :: jsstr
  res_body :: body_read

definition res_ok :: "response \<Rightarrow> bool" where
  "res_ok r \<longleftrightarrow> 200 \<le> res_status r \<and> res_status r \<le> 299"

text \<open>
  What the network does with one \<open>fetch\<close>, the program's input: the call settles
  after so many milliseconds, with a response or with a network failure (a TypeError
  with the browser's message), or it never settles. \<open>fetchWithTimeout\<close> aborts the
  call when its timer fires first; an aborted \<open>fetch\<close> rejects with a DOMException
  named \<open>AbortError\<close>. The timer is cleared once \<open>fetch\<close> has settled, so reading the
  body is not under the deadline.
\<close>

datatype fetch_run = Responds nat response | Fails nat jsstr | Hangs

definition AbortError :: "host \<Rightarrow> js_error" where
  "AbortError h = \<lparr>err_name = js ''AbortError'', err_message = engine_message h Aborted\<rparr>"

definition network_error :: "jsstr \<Rightarrow> js_error" where
  "network_error m = \<lparr>err_name = js ''TypeError'', err_message = m\<rparr>"

definition fetchWithTimeout :: "host \<Rightarrow> fetch_run \<Rightarrow> nat \<Rightarrow> js_error + response" where
  "fetchWithTimeout h run timeoutMs =
     (case run of
        Responds t res \<Rightarrow> (if t < timeoutMs then Inr res else Inl (AbortError h))
      | Fails t m \<Rightarrow> (if t < timeoutMs then Inl (network_error m) else Inl (AbortError h))
      | Hangs \<Rightarrow> Inl (AbortError h))"

record ping =
  ping_ok :: bool
  ping_status :: nat
  ping_text :: jsstr

definition pingWorker :: "host \<Rightarrow> fetch_run \<Rightarrow> js_error + ping" where
  "pingWorker h run =
     (case fetchWithTimeout h run 8000 of
        Inl e \<Rightarrow> Inl e
      | Inr res \<Rightarrow>
          Inr \<lparr>ping_ok = res_ok res, ping_status = res_status res,
               ping_text = (case res_body res of Body t \<Rightarrow> t | Body_fails m \<Rightarrow> [])\<rparr>)"

text \<open>The body \<open>checkClaim\<close> posts (\<open>JSON.stringify\<close> of it is what is sent).\<close>

definition check_payload :: "host \<Rightarrow> jsstr \<Rightarrow> jsstr list \<Rightarrow> json" where
  "check_payload h claim evidenceUrls =
     JObj [(js ''claim'', JStr claim),
           (js ''evidence_urls'', JArr (map JStr evidenceUrls)),
           (js ''client_ts'', JStr (Date_toISOString h))]"

text \<open>The object that stands for a body that is not JSON.\<close>

definition bad_response :: "jsstr \<Rightarrow> json" where
  "bad_response raw =
     JObj [(js ''error'', JStr (js ''Bad response (not JSON)'')), (js ''raw'', JStr raw)]"

record check_result =
  cr_res :: response
  cr_data :: json
  cr_raw :: jsstr

text \<open>\<open>try { data = JSON.parse(raw) } catch { data = { error: ..., raw } }\<close>.\<close>

definition parse_body :: "host \<Rightarrow> jsstr \<Rightarrow> json" where
  "parse_body h t = (case JSON_parse h t of Some d \<Rightarrow> d | None \<Rightarrow> bad_response t)"

definition checkClaim :: "host \<Rightarrow> fetch_run \<Rightarrow> js_error + check_result" where
  "checkClaim h run =
     (case fetchWithTimeout h run FETCH_TIMEOUT_MS of
        Inl e \<Rightarrow> Inl e
      | Inr r \<Rightarrow>
          (case res_body r of
             Body_fails m \<Rightarrow> Inl (network_error m)
           | Body t \<Rightarrow> Inr \<lparr>cr_res = r, cr_data = parse_body h t, cr_raw = t\<rparr>))"

section \<open>Rendering\<close>

text \<open>A line break of a template literal followed by its indentation.\<close>

definition nl :: "nat \<Rightarrow> jsstr" where
  "nl n = 0x0A # replicate n 0x20"

definition none_div :: jsstr where
  \<open>none_div = js ''<div class="muted">None</div>''\<close>

text \<open>\<open>(v || dflt).replace(/</g, "&lt;")\<close>: a truthy value that is not a string has
  no method \<open>replace\<close>, and calling it throws.\<close>

definition text_or :: "host \<Rightarrow> json option \<Rightarrow> jsstr \<Rightarrow> js_error + jsstr" where
  "text_or h v dflt =
     (if truthy v then
        (case v of
           Some (JStr s) \<Rightarrow> Inr (escape_lt s)
         | _ \<Rightarrow> Inl (TypeError h Not_a_function))
      else Inr (escape_lt dflt))"

text \<open>The host name of \<open>new URL(c.url)\<close>, or the empty string when that throws.\<close>

definition citation_host :: "host \<Rightarrow> json option \<Rightarrow> jsstr" where
  "citation_host h u =
     (case String_of h u of
        Inl e \<Rightarrow> []
      | Inr t \<Rightarrow> (case URL_hostname h t of None \<Rightarrow> [] | Some hn \<Rightarrow> hn))"

definition citation_html :: "jsstr \<Rightarrow> jsstr \<Rightarrow> jsstr \<Rightarrow> jsstr \<Rightarrow> jsstr" where
  \<open>citation_html title url snippet hostname =
     nl 8 @ js ''<div class="citation">'' @
     nl 10 @ js ''<div class="citation-title">'' @
     nl 12 @ js ''<a href="'' @ url @ js ''" target="_blank" rel="noopener noreferrer">'' @
       title @ js ''</a>'' @
     nl 12 @ (if hostname \<noteq> [] then js ''<span class="citation-host">'' @ hostname @ js ''</span>''
              else []) @
     nl 10 @ js ''</div>'' @
     nl 10 @ (if snippet \<noteq> [] then js ''<div class="citation-snippet">'' @ snippet @ js ''</div>''
              else []) @
     nl 8 @ js ''</div>'' @
     nl 6\<close>

text \<open>One citation \<open>c\<close> at index \<open>i\<close>; reading a property of \<open>null\<close> throws.\<close>

definition citation_item :: "host \<Rightarrow> nat \<Rightarrow> json \<Rightarrow> js_error + jsstr" where
  "citation_item h i c =
     (if c = JNull then Inl (TypeError h Null_property)
      else
        (case text_or h (get_prop c (js ''title'')) (js ''Source '' @ digits (i + 1)) of
           Inl e \<Rightarrow> Inl e
         | Inr title \<Rightarrow>
             (case text_or h (get_prop c (js ''url'')) [] of
                Inl e \<Rightarrow> Inl e
              | Inr url \<Rightarrow>
                  (case text_or h (get_prop c (js ''snippet'')) [] of
                     Inl e \<Rightarrow> Inl e
                   | Inr snippet \<Rightarrow>
                       Inr (citation_html title url snippet
                              (citation_host h (get_prop c (js ''url''))))))))"

fun citation_items :: "host \<Rightarrow> nat \<Rightarrow> json list \<Rightarrow> js_error + jsstr list" where
  "citation_items h i [] = Inr []"
| "citation_items h i (c # cs) =
     (case citation_item h i c of
        Inl e \<Rightarrow> Inl e
      | Inr x \<Rightarrow>
          (case citation_items h (Suc i) cs of
             Inl e \<Rightarrow> Inl e
           | Inr xs \<Rightarrow> Inr (x # xs)))"

definition renderCitations :: "host \<Rightarrow> json list \<Rightarrow> js_error + jsstr" where
  \<open>renderCitations h citations =
     (if citations = [] then Inr none_div
      else
        (case citation_items h 0 citations of
           Inl e \<Rightarrow> Inl e
         | Inr items \<Rightarrow> Inr (js ''<div class="citations">'' @ concat items @ js ''</div>'')))\<close>

subsection \<open>Explanations\<close>

definition li :: "jsstr \<Rightarrow> jsstr" where
  "li x = js ''<li>'' @ x @ js ''</li>''"

definition no_evidence_hint :: jsstr where
  "no_evidence_hint =
     js ''No evidence links provided '' @ [0x2014] @ js '' add 1'' @ [0x2013] @
     js ''2 credible sources.''"

definition short_claim_hint :: jsstr where
  "short_claim_hint =
     js ''Claim is short '' @ [0x2014] @ js '' add who/what/when/where details.''"

definition fallback_hint :: jsstr where
  "fallback_hint =
     js ''No explanation returned '' @ [0x2014] @ js '' backend may be in minimal mode.''"

text \<open>The array \<open>hints\<close> after its three conditional pushes.\<close>

definition hints :: "jsstr \<Rightarrow> jsstr list \<Rightarrow> jsstr list" where
  "hints claim evidenceUrls =
     (let h1 = (if evidenceUrls = [] then [no_evidence_hint] else []);
          h2 = (if length claim < 12 then h1 @ [short_claim_hint] else h1)
      in if h2 = [] then [fallback_hint] else h2)"

text \<open>\<open>why.map(x => `<li>${String(x).replace(/</g, "&lt;")}</li>`)\<close>.\<close>

fun why_items :: "host \<Rightarrow> json list \<Rightarrow> js_error + jsstr list" where
  "why_items h [] = Inr []"
| "why_items h (x # xs) =
     (case ToString h x of
        Inl e \<Rightarrow> Inl e
      | Inr t \<Rightarrow>
          (case why_items h xs of
             Inl e \<Rightarrow> Inl e
           | Inr ts \<Rightarrow> Inr (li (escape_lt t) # ts)))"

text \<open>\<open>Array.isArray(data?.key) ? data.key : []\<close>.\<close>

definition array_field :: "json \<Rightarrow> jsstr \<Rightarrow> json list" where
  "array_field d k = (case get_prop d k of Some (JArr xs) \<Rightarrow> xs | _ \<Rightarrow> [])"

definition why_html :: "host \<Rightarrow> jsstr \<Rightarrow> jsstr list \<Rightarrow> json list \<Rightarrow> js_error + jsstr" where
  "why_html h claim evidenceUrls why =
     (if why = [] then Inr (concat (map li (hints claim evidenceUrls)))
      else
        (case why_items h why of
           Inl e \<Rightarrow> Inl e
         | Inr items \<Rightarrow> Inr (concat items)))"

subsection \<open>Score and verdict of a response\<close>

text \<open>\<open>data?.score ?? data?.confidence ?? 0\<close>.\<close>

definition score_field :: "json \<Rightarrow> json option" where
  "score_field d =
     coalesce (coalesce (get_prop d (js ''score'')) (get_prop d (js ''confidence'')))
       (Some (JNum (Fin 0)))"

text \<open>\<open>Math.max(0, Math.min(100, Math.round(score)))\<close>.\<close>

definition pct_of :: "jsnum \<Rightarrow> jsnum" where
  "pct_of score = Math_max (Fin 0) (Math_min (Fin 100) (Math_round score))"

text \<open>The template \<open>`${pct}%`\<close>.\<close>

definition pct_text :: "host \<Rightarrow> jsnum \<Rightarrow> jsstr" where
  "pct_text h pct = NumberToString h pct @ js ''%''"

text \<open>
  \<open>data?.verdict ? { label: data.verdict, badge: data.badge || "" } : verdictFromScore(score)\<close>.
\<close>

definition verdict_of :: "json \<Rightarrow> jsnum \<Rightarrow> json option verdict" where
  "verdict_of d score =
     (if truthy (get_prop d (js ''verdict''))
      then \<lparr>label = get_prop d (js ''verdict''),
            badge = or_else (get_prop d (js ''badge'')) (Some (JStr []))\<rparr>
      else (let v = verdictFromScore score
            in \<lparr>label = Some (JStr (verdict.label v)), badge = Some (JStr (verdict.badge v))\<rparr>))"

section \<open>The check handler\<close>

text \<open>
  A \<open>try\<close> block is a list of statements, each of which returns the next page or
  throws; what a statement wrote before a later one throws stays written, and the
  \<open>catch\<close> clause starts from there.
\<close>

fun run_steps :: "(page \<Rightarrow> js_error + page) list \<Rightarrow> page \<Rightarrow> page \<times> js_error option" where
  "run_steps [] p = (p, None)"
| "run_steps (s # ss) p =
     (case s p of
        Inl e \<Rightarrow> (p, Some e)
      | Inr p' \<Rightarrow> run_steps ss p')"

text \<open>The writes on entering the checking state.\<close>

definition checking_state :: "page \<Rightarrow> page" where
  \<open>checking_state p0 =
     (let p = setStatus p0 St_checking (js ''Checking'' @ [0x2026])
      in p\<lparr>resultTitle := setText_str (resultTitle p) (js ''Checking'' @ [0x2026]),
           resultBadge := setText_str (resultBadge p) [],
           scoreBar := set_width (scoreBar p) (js ''0%''),
           scorePct := setText_str (scorePct p) [0x2014],
           whyList := setHTML (whyList p) (js ''<li class="muted">Working'' @ [0x2026] @ js ''</li>''),
           citationsBox :=
             setHTML (citationsBox p) (js ''<div class="muted">Loading'' @ [0x2026] @ js ''</div>''),
           debugBox := setText_str (debugBox p) []\<rparr>)\<close>

text \<open>The branch \<open>if (!res.ok) { ... return; }\<close>.\<close>

definition http_error :: "response \<Rightarrow> jsstr \<Rightarrow> page \<Rightarrow> page" where
  "http_error r body p0 =
     (let p = setStatus p0 St_error (js ''API error ('' @ digits (res_status r) @ js '')'')
      in p\<lparr>resultTitle := setText_str (resultTitle p) (js ''Error''),
           resultBadge := setText_str (resultBadge p) (js ''HTTP '' @ digits (res_status r)),
           whyList :=
             setHTML (whyList p)
               (js ''<li>Backend returned HTTP '' @ digits (res_status r) @ js ''.</li>'' @ nl 13 @
                js ''<li>Most common cause: wrong route or method (needs <b>POST '' @
                CHECK_ENDPOINT @ js ''</b>).</li>''),
           citationsBox := setHTML (citationsBox p) none_div,
           debugBox :=
             setText_str (debugBox p)
               (js ''[HTTP '' @ digits (res_status r) @ js ''] '' @ res_statusText r @
                [0x0A, 0x0A] @ js ''RAW:'' @ [0x0A] @ slice0 2000 body)\<rparr>)"

text \<open>
  The branch \<open>if (data?.error) { ... return; }\<close>. The debug text is
  \<open>String(data?.raw || raw).slice(0, 2000)\<close>, computed only when the debug box exists;
  \<open>raw_shown\<close> is \<open>data?.raw || raw\<close>.
\<close>

definition raw_shown :: "json \<Rightarrow> jsstr \<Rightarrow> json" where
  "raw_shown d body =
     (case or_else (get_prop d (js ''raw'')) (Some (JStr body)) of
        Some v \<Rightarrow> v
      | None \<Rightarrow> JStr body)"

definition payload_error :: "host \<Rightarrow> json \<Rightarrow> jsstr \<Rightarrow> page \<Rightarrow> page \<times> js_error option" where
  "payload_error h d body p0 =
     (let p = setStatus p0 St_error (js ''Bad response'');
          p1 = p\<lparr>resultTitle := setText_str (resultTitle p) (js ''Error''),
                 resultBadge := setText_str (resultBadge p) (js ''Bad response''),
                 whyList :=
                   setHTML (whyList p)
                     (js ''<li>Backend responded, but payload wasn'' @ [0x2019] @
                      js ''t usable JSON.</li>'' @ nl 13 @
                      js ''<li>See Debug for raw response.</li>''),
                 citationsBox := setHTML (citationsBox p) none_div\<rparr>
      in case debugBox p1 of
           None \<Rightarrow> (p1, None)
         | Some e \<Rightarrow>
             (case ToString h (raw_shown d body) of
                Inl err \<Rightarrow> (p1, Some err)
              | Inr t \<Rightarrow>
                  (p1\<lparr>debugBox :=
                        setText_str (debugBox p1) (js ''[BAD JSON]'' @ [0x0A] @ slice0 2000 t)\<rparr>,
                   None)))"

text \<open>The statements of the success path, after \<open>score\<close> and \<open>v\<close> are computed.\<close>

definition show_verdict :: "host \<Rightarrow> json option verdict \<Rightarrow> (page \<Rightarrow> js_error + page) list" where
  "show_verdict h v =
     [\<lambda>p. Inr (setStatus p St_ok (js ''Checked '' @ [0x2705])),
      \<lambda>p. (case setText h (resultTitle p) (label v) of
              Inl e \<Rightarrow> Inl e
            | Inr el \<Rightarrow> Inr (p\<lparr>resultTitle := el\<rparr>)),
      \<lambda>p. (case setText h (resultBadge p) (or_else (badge v) (Some (JStr []))) of
              Inl e \<Rightarrow> Inl e
            | Inr el \<Rightarrow> Inr (p\<lparr>resultBadge := el\<rparr>))]"

definition show_score :: "host \<Rightarrow> jsnum \<Rightarrow> (page \<Rightarrow> js_error + page) list" where
  "show_score h score =
     [\<lambda>p. Inr (p\<lparr>scoreBar := set_width (scoreBar p) (pct_text h (pct_of score)),
                  scorePct := setText_str (scorePct p) (pct_text h (pct_of score)),
                  scoreLabel := setText_str (scoreLabel p) (js ''Confidence'')\<rparr>)]"

definition show_why :: "host \<Rightarrow> jsstr \<Rightarrow> jsstr list \<Rightarrow> json \<Rightarrow> (page \<Rightarrow> js_error + page) list" where
  "show_why h claim evidenceUrls d =
     [\<lambda>p. (case whyList p of
              None \<Rightarrow> Inr p
            | Some el \<Rightarrow>
                (case why_html h claim evidenceUrls (array_field d (js ''why'')) of
                   Inl e \<Rightarrow> Inl e
                 | Inr html \<Rightarrow> Inr (p\<lparr>whyList := setHTML (whyList p) html\<rparr>)))]"

definition show_citations :: "host \<Rightarrow> json \<Rightarrow> (page \<Rightarrow> js_error + page) list" where
  "show_citations h d =
     [\<lambda>p. (case citationsBox p of
              None \<Rightarrow> Inr p
            | Some el \<Rightarrow>
                (case renderCitations h (array_field d (js ''citations'')) of
                   Inl e \<Rightarrow> Inl e
                 | Inr html \<Rightarrow> Inr (p\<lparr>citationsBox := setHTML (citationsBox p) html\<rparr>)))]"

definition debug_trace :: "jsstr \<Rightarrow> jsstr list \<Rightarrow> json \<Rightarrow> json" where
  "debug_trace claim evidenceUrls d =
     JObj [(js ''endpoint'', JStr (WORKER_BASE @ CHECK_ENDPOINT)),
           (js ''sent'', JObj [(js ''claim'', JStr claim),
                              (js ''evidenceUrls'', JArr (map JStr evidenceUrls))]),
           (js ''received'', d)]"

definition show_debug :: "host \<Rightarrow> jsstr \<Rightarrow> jsstr list \<Rightarrow> json \<Rightarrow> (page \<Rightarrow> js_error + page) list" where
  "show_debug h claim evidenceUrls d =
     [\<lambda>p. Inr (p\<lparr>debugBox :=
                    setText_str (debugBox p) (JSON_stringify h (debug_trace claim evidenceUrls d))\<rparr>)]"

definition render_result :: "host \<Rightarrow> jsstr \<Rightarrow> jsstr list \<Rightarrow> json \<Rightarrow> page \<Rightarrow> page \<times> js_error option" where
  "render_result h claim evidenceUrls d p =
     (case Number h (score_field d) of
        Inl e \<Rightarrow> (p, Some e)
      | Inr score \<Rightarrow>
          run_steps
            (show_verdict h (verdict_of d score) @ show_score h score @
             show_why h claim evidenceUrls d @ show_citations h d @
             show_debug h claim evidenceUrls d) p)"

text \<open>The body of the \<open>try\<close> block.\<close>

definition try_check :: "host \<Rightarrow> fetch_run \<Rightarrow> jsstr \<Rightarrow> jsstr list \<Rightarrow> page \<Rightarrow> page \<times> js_error option" where
  "try_check h run claim evidenceUrls p =
     (case checkClaim h run of
        Inl e \<Rightarrow> (p, Some e)
      | Inr c \<Rightarrow>
          (if \<not> res_ok (cr_res c) then (http_error (cr_res c) (cr_raw c) p, None)
           else if truthy (get_prop (cr_data c) (js ''error'')) then payload_error h (cr_data c) (cr_raw c) p
           else render_result h claim evidenceUrls (cr_data c) p))"

text \<open>The \<open>catch (e)\<close> clause.\<close>

definition catch_message :: "js_error \<Rightarrow> jsstr" where
  "catch_message e =
     (if err_name e = js ''AbortError'' then js ''Request timed out'' else js ''Failed to fetch'')"

definition catch_check :: "js_error \<Rightarrow> page \<Rightarrow> page" where
  "catch_check e p0 =
     (let msg = catch_message e;
          p = setStatus p0 St_error msg
      in p\<lparr>resultTitle := setText_str (resultTitle p) (js ''Error''),
           resultBadge := setText_str (resultBadge p) msg,
           whyList :=
             setHTML (whyList p)
               (js ''<li>Frontend couldn'' @ [0x2019] @ js ''t reach the Worker.</li>'' @ nl 11 @
                js ''<li>Check WORKER_BASE in <code>docs/app.js</code>.</li>'' @ nl 11 @
                js ''<li>Confirm Worker is deployed + route <b>POST '' @ CHECK_ENDPOINT @
                js ''</b> exists.</li>''),
           citationsBox := setHTML (citationsBox p) none_div,
           debugBox :=
             setText_str (debugBox p)
               (js ''[FETCH ERROR]'' @ [0x0A] @ error_to_string e @ [0x0A, 0x0A] @
                js ''WORKER_BASE='' @ WORKER_BASE)\<rparr>)"

text \<open>The claim and the evidence links the handler reads from the page.\<close>

definition claim_of :: "page \<Rightarrow> jsstr" where
  "claim_of p = trim (case el_value (claimInput p) of None \<Rightarrow> [] | Some v \<Rightarrow> v)"

definition evidence_of :: "page \<Rightarrow> jsstr list" where
  "evidence_of p =
     extractUrls (case evidenceInput p of None \<Rightarrow> Some [] | Some e \<Rightarrow> el_value e)"

text \<open>A click on the check button.\<close>

definition onCheck :: "host \<Rightarrow> fetch_run \<Rightarrow> page \<Rightarrow> page" where
  "onCheck h run p =
     (if claim_of p = [] then setStatus p St_error (js ''Enter a claim first.'')
      else
        (case try_check h run (claim_of p) (evidence_of p) (checking_state p) of
           (p', None) \<Rightarrow> p'
         | (p', Some e) \<Rightarrow> catch_check e p'))"

section \<open>The other actions\<close>

text \<open>A click on the clear button.\<close>

definition onClear :: "page \<Rightarrow> page" where
  "onClear p0 =
     (let p = p0\<lparr>claimInput := (claimInput p0)\<lparr>el_value := Some []\<rparr>,
                 evidenceInput := map_option (\<lambda>e. e\<lparr>el_value := Some []\<rparr>) (evidenceInput p0),
                 resultTitle := setText_str (resultTitle p0) [0x2014],
                 resultBadge := setText_str (resultBadge p0) [],
                 scoreLabel := setText_str (scoreLabel p0) (js ''Confidence''),
                 scoreBar := set_width (scoreBar p0) (js ''0%''),
                 scorePct := setText_str (scorePct p0) (js ''0%''),
                 whyList := setHTML (whyList p0) [],
                 citationsBox := setHTML (citationsBox p0) none_div,
                 debugBox := setText_str (debugBox p0) []\<rparr>
      in (setStatus p St_idle (js ''API: not checked''))\<lparr>claim_focused := True\<rparr>)"

text \<open>
  A click on an example button whose attribute \<open>data-example\<close> is \<open>attr\<close>
  (\<open>None\<close>: no such attribute). The text is \<open>claim | url1,url2\<close>. Writing the evidence
  field when the page has none throws, after the claim has been written; the handler
  has no \<open>catch\<close>, so the exception is returned beside the page.
\<close>

definition onExample :: "host \<Rightarrow> jsstr option \<Rightarrow> page \<Rightarrow> page \<times> js_error option" where
  "onExample h attr p0 =
     (let example = (case attr of None \<Rightarrow> [] | Some a \<Rightarrow> a);
          parts = map trim (split 0x7C example);
          c = (case parts of [] \<Rightarrow> [] | x # xs \<Rightarrow> x);
          urls = (case parts of x # y # ys \<Rightarrow> y | _ \<Rightarrow> []);
          p = (if c \<noteq> [] then p0\<lparr>claimInput := (claimInput p0)\<lparr>el_value := Some c\<rparr>\<rparr> else p0)
      in if urls \<noteq> [] then
           (case evidenceInput p of
              None \<Rightarrow> (p, Some (TypeError h Null_property))
            | Some e \<Rightarrow>
                (p\<lparr>evidenceInput :=
                      Some (e\<lparr>el_value :=
                                Some (join [0x0A]
                                        (filter (\<lambda>u. u \<noteq> []) (map trim (split 0x2C urls))))\<rparr>),
                    claim_focused := True\<rparr>,
                 None))
         else (p\<lparr>claim_focused := True\<rparr>, None))"

text \<open>A click on the debug toggle, which is wired only when the debug box exists.\<close>

definition onDebugToggle :: "page \<Rightarrow> page" where
  "onDebugToggle p =
     (case debugBox p of
        None \<Rightarrow> p
      | Some e \<Rightarrow>
          (if el_data_open e = Some (js ''true'')
           then p\<lparr>debugBox := Some (e\<lparr>el_data_open := Some (js ''false''), el_display := js ''none''\<rparr>)\<rparr>
           else p\<lparr>debugBox := Some (e\<lparr>el_data_open := Some (js ''true''), el_display := js ''block''\<rparr>)\<rparr>))"

text \<open>The connectivity probe \<open>boot\<close> runs once on load.\<close>

definition probe :: "host \<Rightarrow> fetch_run \<Rightarrow> page \<Rightarrow> page" where
  "probe h run p0 =
     (let p = setStatus p0 St_checking (js ''API: checking'' @ [0x2026])
      in case pingWorker h run of
           Inl e \<Rightarrow>
             (let q = setStatus p St_error (js ''API: unreachable'')
              in q\<lparr>debugBox :=
                     setText_str (debugBox q) (js ''[PING ERROR]'' @ [0x0A] @ error_to_string e)\<rparr>)
         | Inr g \<Rightarrow>
             (if ping_ok g then setStatus p St_ok (js ''API: reachable'')
              else
                (let q = setStatus p St_error
                           (js ''API: unreachable ('' @ digits (ping_status g) @ js '')'')
                 in q\<lparr>debugBox :=
                        setText_str (debugBox q)
                          (js ''[PING] '' @ digits (ping_status g) @ [0x0A] @
                           slice0 800 (ping_text g))\<rparr>)))"

section \<open>The score that is written\<close>

text \<open>
  On the success path the handler computes \<open>score\<close> with \<open>Number\<close>, then writes the
  title and the badge, then the score. Each of the three statements before the score
  can throw, and the \<open>catch\<close> clause does not write the score. \<open>written_score\<close> is
  the score when none of them throws, and \<open>None\<close> when one does.
\<close>

definition written_score :: "host \<Rightarrow> page \<Rightarrow> json \<Rightarrow> jsnum option" where
  "written_score h p d =
     (case Number h (score_field d) of
        Inl e \<Rightarrow> None
      | Inr n \<Rightarrow>
          (let v = verdict_of d n
           in if isl (setText h (resultTitle p) (label v)) \<or>
                 isl (setText h (resultBadge p) (or_else (badge v) (Some (JStr []))))
              then None else Some n))"

section \<open>The expected body\<close>

text \<open>
  The body the handler is written for (its comment: \<open>Expecting: { verdict, score,
  why[], citations[] }\<close>): \<open>score\<close> and \<open>confidence\<close> are numbers, \<open>verdict\<close>
  and \<open>badge\<close> strings, \<open>why\<close> holds strings, and \<open>citations\<close> holds objects whose
  \<open>title\<close>, \<open>url\<close> and \<open>snippet\<close> are strings. Every field may be missing or
  \<open>null\<close>, and the body may have other fields, \<open>error\<close> and \<open>raw\<close> among them.
\<close>

definition absent_or_string :: "json option \<Rightarrow> bool" where
  "absent_or_string v =
     (case v of None \<Rightarrow> True | Some JNull \<Rightarrow> True | Some (JStr s) \<Rightarrow> True | _ \<Rightarrow> False)"

definition absent_or_number :: "json option \<Rightarrow> bool" where
  "absent_or_number v =
     (case v of None \<Rightarrow> True | Some JNull \<Rightarrow> True | Some (JNum n) \<Rightarrow> True | _ \<Rightarrow> False)"

definition is_string :: "json \<Rightarrow> bool" where
  "is_string v = (case v of JStr s \<Rightarrow> True | _ \<Rightarrow> False)"

definition is_citation :: "json \<Rightarrow> bool" where
  "is_citation c =
     (case c of
        JObj kv \<Rightarrow>
          absent_or_string (map_of kv (js ''title'')) \<and>
          absent_or_string (map_of kv (js ''url'')) \<and>
          absent_or_string (map_of kv (js ''snippet''))
      | _ \<Rightarrow> False)"

definition expected_body :: "json \<Rightarrow> bool" where
  "expected_body d \<longleftrightarrow>
     absent_or_number (get_prop d (js ''score'')) \<and>
     absent_or_number (get_prop d (js ''confidence'')) \<and>
     absent_or_string (get_prop d (js ''verdict'')) \<and>
     absent_or_string (get_prop d (js ''badge'')) \<and>
     list_all is_string (array_field d (js ''why'')) \<and>
     list_all is_citation (array_field d (js ''citations''))"

section \<open>Sample inputs\<close>

text \<open>
  Concrete inputs on which the theorems below are instantiated: an element with nothing
  set; a page that has every element; a host given by what its \<open>JSON.parse\<close> does
  (the other built-ins return fixed values); a host that reads one given body as one
  given value and rejects every other text; a host for which no text is JSON; and a
  fetch that is answered after 120 ms.
\<close>

definition blank :: element where
  "blank = \<lparr>el_content = Text [], el_classes = [], el_width = [], el_display = [],
             el_data_open = None, el_value = None\<rparr>"

definition full_page :: "jsstr \<Rightarrow> jsstr \<Rightarrow> page" where
  "full_page claim evidence =
     \<lparr>claimInput = blank\<lparr>el_value := Some claim\<rparr>,
      evidenceInput = Some (blank\<lparr>el_value := Some evidence\<rparr>),
      apiPill = Some blank, apiStatus = Some blank, resultTitle = Some blank,
      resultBadge = Some blank, scoreLabel = Some blank, scoreBar = Some blank,
      scorePct = Some blank, whyList = Some blank, citationsBox = Some blank,
      debugBox = Some blank, claim_focused = False\<rparr>"

definition host_of :: "(jsstr \<Rightarrow> json option) \<Rightarrow> host" where
  "host_of parse =
     \<lparr>JSON_parse = parse,
      JSON_stringify = (\<lambda>v. []),
      StringToNumber = (\<lambda>s. NaN),
      finite_to_string = (\<lambda>r. []),
      URL_hostname = (\<lambda>s. None),
      Date_toISOString = [],
      engine_message = (\<lambda>k. [])\<rparr>"

definition replying :: "jsstr \<Rightarrow> json \<Rightarrow> host" where
  "replying body d = host_of (\<lambda>s. if s = body then Some d else None)"

definition silent :: host where
  "silent = host_of (\<lambda>s. None)"

definition answer :: "nat \<Rightarrow> jsstr \<Rightarrow> fetch_run" where
  "answer status body =
     Responds 120 \<lparr>res_status = status, res_statusText = [], res_body = Body body\<rparr>"

definition sky_page :: page where
  "sky_page = full_page (js ''The sky is blue'') []"


definition score_body :: jsstr where
  \<open>score_body = js ''{"score":142.7}''\<close>

definition score_value :: json where
  "score_value = JObj [(js ''score'', JNum (Fin (1427 / 10)))]"







definition html_body :: jsstr where
  "html_body = js ''<html>oops</html>''"

text \<open>
  A body whose score is a string that is no number, and one whose score is \<open>null\<close>
  and whose confidence is a numeric string; \<open>reading\<close> is a host that reads one
  given string as one given number and every other string as \<open>NaN\<close>.
\<close>

definition abc_body :: jsstr where
  \<open>abc_body = js ''{"score":"abc"}''\<close>

definition abc_value :: json where
  "abc_value = JObj [(js ''score'', JStr (js ''abc''))]"

definition confidence_body :: jsstr where
  \<open>confidence_body = js ''{"score":null,"confidence":"61.5"}''\<close>

definition confidence_value :: json where
  "confidence_value = JObj [(js ''score'', JNull), (js ''confidence'', JStr (js ''61.5''))]"

definition reading :: "jsstr \<Rightarrow> json \<Rightarrow> jsstr \<Rightarrow> jsnum \<Rightarrow> host" where
  "reading body d s x = (replying body d)\<lparr>StringToNumber := (\<lambda>t. if t = s then x else NaN)\<rparr>"

section \<open>Properties of the evidence extractor\<close>

lemma set_foldl_set_add: "set (foldl set_add acc xs) = set acc \<union> set xs"
  by (induction xs arbitrary: acc) (auto simp: set_add_def)

lemma distinct_foldl_set_add: "distinct acc \<Longrightarrow> distinct (foldl set_add acc xs)"
  by (induction xs arbitrary: acc) (auto simp: set_add_def)

lemma set_new_Set: "set (new_Set xs) = set xs"
  by (simp add: new_Set_def set_foldl_set_add)

lemma distinct_new_Set: "distinct (new_Set xs)"
  by (simp add: new_Set_def distinct_foldl_set_add)

lemma new_Set_snoc: "new_Set (xs @ [x]) = set_add (new_Set xs) x"
  by (simp add: new_Set_def)

lemma first_index_append_mem: "a \<in> set xs \<Longrightarrow> first_index a (xs @ ys) = first_index a xs"
  by (simp add: first_index_def takeWhile_append1)

lemma first_index_less: "a \<in> set xs \<Longrightarrow> first_index a xs < length xs"
  unfolding first_index_def by (induction xs) auto

lemma first_index_snoc_new: "x \<notin> set xs \<Longrightarrow> first_index x (xs @ [x]) = length xs"
  unfolding first_index_def by (induction xs) auto

text \<open>
  The members of \<open>new Set(xs)\<close> stand in the order in which they first occur in
  \<open>xs\<close>: by induction on \<open>xs\<close> from the right, since the set grows at its end.
\<close>

lemma new_Set_first_seen:
  "sorted_wrt (\<lambda>a b. first_index a xs < first_index b xs) (new_Set xs)"
proof (induction xs rule: rev_induct)
  case Nil
  show ?case by (simp add: new_Set_def)
next
  case (snoc x xs)
  have old: "sorted_wrt (\<lambda>a b. first_index a (xs @ [x]) < first_index b (xs @ [x])) (new_Set xs)"
    using snoc.IH
    by (rule sorted_wrt_mono_rel [rotated]) (simp add: set_new_Set first_index_append_mem)
  show ?case
  proof (cases "x \<in> set xs")
    case True
    then show ?thesis using old by (simp add: new_Set_snoc set_add_def set_new_Set)
  next
    case False
    have "\<forall>a\<in>set (new_Set xs). first_index a (xs @ [x]) < first_index x (xs @ [x])"
      using False
      by (simp add: set_new_Set first_index_append_mem first_index_snoc_new first_index_less)
    then show ?thesis
      using old False by (simp add: new_Set_snoc set_add_def set_new_Set sorted_wrt_append)
  qed
qed

lemma push_matches_append:
  "push_matches urls (xs @ ys) = push_matches (push_matches urls xs) ys"
  by (induction xs arbitrary: urls) (auto split: option.splits)

lemma set_push_matches:
  "set (push_matches urls ls) = set urls \<union> {m. \<exists>l\<in>set ls. url_match l = Some m}"
  by (induction ls arbitrary: urls) (auto split: option.splits)

lemma split_not_Nil: "split sep s \<noteq> []"
  by (induction s) (auto split: list.splits)

lemma split_append: "split sep (a @ sep # b) = split sep a @ split sep b"
proof (induction a)
  case Nil
  show ?case by simp
next
  case (Cons c a)
  then show ?case using split_not_Nil [of sep a]
    by (cases "split sep a") auto
qed

lemma split_no_sep: "sep \<notin> set l \<Longrightarrow> split sep l = [l]"
  by (induction l) auto

lemma text_lines_append: "text_lines (a @ 0x0A # b) = text_lines a @ text_lines b"
  by (simp add: text_lines_def split_append)

lemma text_lines_single:
  "0x0A \<notin> set l \<Longrightarrow> text_lines l = (if trim l = [] then [] else [trim l])"
  by (simp add: text_lines_def split_no_sep)

lemma text_lines_Nil: "text_lines [] = []"
  by (simp add: text_lines_def trim_def)

lemma extractUrls_Some: "extractUrls (Some t) = new_Set (urls_pushed t)"
  by (simp add: extractUrls_def urls_pushed_def text_lines_Nil new_Set_def)

lemma line_without_url:
  assumes "0x0A \<notin> set l" and "url_match (trim l) = None"
  shows "extractUrls (Some (a @ [0x0A] @ l @ [0x0A] @ b)) = extractUrls (Some (a @ [0x0A] @ b))"
  using assms
  by (simp add: extractUrls_def text_lines_append text_lines_single push_matches_append)

lemma extractUrls_example:
  "extractUrls (Some (js ''see https://a.example/x'' @ [0x0A] @ js ''no link here'' @ [0x0A] @
                      js ''https://a.example/x again'' @ [0x0A] @ js ''https://b.example/y''))
   = [js ''https://a.example/x'', js ''https://b.example/y'']"
  by (simp add: extractUrls_def text_lines_def js_def trim_def is_space_def new_Set_def
      set_add_def scheme_at_def url_tail_def ci_def)

text \<open>
  C1. For every input, \<open>null\<close>, \<open>undefined\<close> and the empty string included,
  \<open>extractUrls\<close> returns a list without duplicates; \<open>null\<close>, \<open>undefined\<close> and the
  empty string give the empty list. The list holds exactly the matches the regular
  expression finds in the trimmed, non-empty lines, each once, in the order in which
  they are first seen. A line in which the expression finds nothing contributes
  nothing: the text with the line and the text without it give the same list. The
  four-line example of the specification gives its two URLs.
\<close>

theorem extractUrls_unique_first_seen:
  "distinct (extractUrls inp) \<and>
   extractUrls None = [] \<and>
   extractUrls (Some []) = [] \<and>
   set (extractUrls (Some t)) = {m. \<exists>l\<in>set (text_lines t). url_match l = Some m} \<and>
   sorted_wrt (\<lambda>u v. first_index u (urls_pushed t) < first_index v (urls_pushed t))
     (extractUrls (Some t)) \<and>
   (0x0A \<notin> set l \<and> url_match (trim l) = None \<longrightarrow>
      extractUrls (Some (a @ [0x0A] @ l @ [0x0A] @ b)) = extractUrls (Some (a @ [0x0A] @ b))) \<and>
   extractUrls (Some (js ''see https://a.example/x'' @ [0x0A] @ js ''no link here'' @ [0x0A] @
                      js ''https://a.example/x again'' @ [0x0A] @ js ''https://b.example/y''))
   = [js ''https://a.example/x'', js ''https://b.example/y'']"
proof -
  have "distinct (extractUrls inp)"
    by (cases inp) (simp_all add: extractUrls_def distinct_new_Set)
  moreover have "extractUrls None = []" "extractUrls (Some []) = []"
    by (simp_all add: extractUrls_def)
  moreover have "set (extractUrls (Some t)) = {m. \<exists>l\<in>set (text_lines t). url_match l = Some m}"
    by (simp add: extractUrls_Some set_new_Set urls_pushed_def set_push_matches)
  moreover have "sorted_wrt (\<lambda>u v. first_index u (urls_pushed t) < first_index v (urls_pushed t))
     (extractUrls (Some t))"
    by (simp add: extractUrls_Some new_Set_first_seen)
  ultimately show ?thesis
    using line_without_url [of l a b] extractUrls_example by simp
qed

theorem extractUrls_unique_first_seen_witness:
  "(0x0A \<notin> set (js ''no link here'') \<and> url_match (trim (js ''no link here'')) = None) \<and>
   extractUrls (Some (js ''http://a.example/x'' @ [0x0A] @ js ''no link here'' @ [0x0A] @
                      js ''see HTTPS://b.example/y now''))
   = extractUrls (Some (js ''http://a.example/x'' @ [0x0A] @ js ''see HTTPS://b.example/y now'')) \<and>
   extractUrls (Some (js ''http://a.example/x'' @ [0x0A] @ js ''see HTTPS://b.example/y now''))
   = [js ''http://a.example/x'', js ''HTTPS://b.example/y''] \<and>
   distinct (extractUrls (Some (js ''u http://a v'' @ [0x0A] @ js ''http://a'')))"
proof -
  have no_url: "0x0A \<notin> set (js ''no link here'') \<and> url_match (trim (js ''no link here'')) = None"
    by (simp add: js_def trim_def is_space_def scheme_at_def url_tail_def ci_def)
  have run: "extractUrls (Some (js ''http://a.example/x'' @ [0x0A] @ js ''see HTTPS://b.example/y now''))
      = [js ''http://a.example/x'', js ''HTTPS://b.example/y'']"
    by (simp add: extractUrls_def text_lines_def js_def trim_def is_space_def new_Set_def
        set_add_def scheme_at_def url_tail_def ci_def)
  show ?thesis
    using no_url run
      extractUrls_unique_first_seen [of "Some (js ''u http://a v'' @ [0x0A] @ js ''http://a'')"
        "js ''http://a''" "js ''no link here''" "js ''http://a.example/x''"
        "js ''see HTTPS://b.example/y now''"]
    by simp
qed

section \<open>Properties of the verdict\<close>

lemma num_lt_not_ge: "num_lt s (Fin a) \<Longrightarrow> \<not> num_ge s (Fin a)"
  by (cases s) (auto simp: num_lt_def num_ge_def)

lemma num_ge_trans_Fin: "num_ge s (Fin a) \<Longrightarrow> b \<le> a \<Longrightarrow> num_ge s (Fin b)"
  by (cases s) (auto simp: num_ge_def)

text \<open>
  C3. \<open>verdictFromScore\<close> tests the thresholds 85, 65 and 40 from the highest down,
  each as an inclusive lower bound: a score of at least 85 gives
  (Likely true, Strong support); one of at least 65 and below 85 gives
  (Mixed / uncertain, Some support); one of at least 40 and below 65 gives
  (Unclear, Weak support); one below 40 gives (Unclear / likely false, Low support).
  The scores 85, 84, 40 and 39 fall into the four tiers in this order.
\<close>

theorem verdictFromScore_tiers:
  "(num_ge s (Fin 85) \<longrightarrow>
      verdictFromScore s = \<lparr>label = js ''Likely true'', badge = js ''Strong support''\<rparr>) \<and>
   (num_ge s (Fin 65) \<and> num_lt s (Fin 85) \<longrightarrow>
      verdictFromScore s = \<lparr>label = js ''Mixed / uncertain'', badge = js ''Some support''\<rparr>) \<and>
   (num_ge s (Fin 40) \<and> num_lt s (Fin 65) \<longrightarrow>
      verdictFromScore s = \<lparr>label = js ''Unclear'', badge = js ''Weak support''\<rparr>) \<and>
   (num_lt s (Fin 40) \<longrightarrow>
      verdictFromScore s = \<lparr>label = js ''Unclear / likely false'', badge = js ''Low support''\<rparr>) \<and>
   verdictFromScore (Fin 85) = \<lparr>label = js ''Likely true'', badge = js ''Strong support''\<rparr> \<and>
   verdictFromScore (Fin 84) = \<lparr>label = js ''Mixed / uncertain'', badge = js ''Some support''\<rparr> \<and>
   verdictFromScore (Fin 40) = \<lparr>label = js ''Unclear'', badge = js ''Weak support''\<rparr> \<and>
   verdictFromScore (Fin 39) = \<lparr>label = js ''Unclear / likely false'', badge = js ''Low support''\<rparr>"
proof -
  have lt65: "num_lt s (Fin 65) \<Longrightarrow> \<not> num_ge s (Fin 85)"
    using num_ge_trans_Fin [of s 85 65] num_lt_not_ge [of s 65] by auto
  have lt40: "num_lt s (Fin 40) \<Longrightarrow> \<not> num_ge s (Fin 85) \<and> \<not> num_ge s (Fin 65)"
    using num_ge_trans_Fin [of s 85 40] num_ge_trans_Fin [of s 65 40] num_lt_not_ge [of s 40]
    by auto
  show ?thesis
    using lt65 lt40 num_lt_not_ge [of s 85] num_lt_not_ge [of s 65] num_lt_not_ge [of s 40]
    by (auto simp: verdictFromScore_def num_ge_def)
qed

theorem verdictFromScore_tiers_witness:
  "num_ge PosInf (Fin 85) \<and>
   verdictFromScore PosInf = \<lparr>label = js ''Likely true'', badge = js ''Strong support''\<rparr> \<and>
   (num_ge (Fin (129 / 2)) (Fin 40) \<and> num_lt (Fin (129 / 2)) (Fin 65)) \<and>
   verdictFromScore (Fin (129 / 2)) = \<lparr>label = js ''Unclear'', badge = js ''Weak support''\<rparr>"
  using verdictFromScore_tiers [of PosInf] verdictFromScore_tiers [of "Fin (129 / 2)"]
  by (simp add: num_ge_def num_lt_def)

section \<open>Properties of strings, values and elements\<close>

subsection \<open>Strings and values\<close>

lemma js_eq_Nil [simp]: "js s = [] \<longleftrightarrow> s = []"
  by (simp add: js_def)



lemma nullish_simps [simp]:
  "nullish None" "nullish (Some JNull)" "\<not> nullish (Some (JBool b))" "\<not> nullish (Some (JNum n))"
  "\<not> nullish (Some (JStr s))" "\<not> nullish (Some (JArr xs))" "\<not> nullish (Some (JObj kv))"
  by (simp_all add: nullish_def)

lemma truthy_not_nullish: "truthy v \<Longrightarrow> \<not> nullish v"
  by (auto simp: truthy_def nullish_def split: option.splits json.splits)

lemma or_else_idem: "or_else (or_else v e) e = or_else v e"
  by (simp add: or_else_def)

lemma or_else_JStr: "or_else (Some (JStr t)) (Some (JStr [])) = Some (JStr t)"
  by (simp add: or_else_def truthy_def)

lemma or_else_not_nullish: "\<not> nullish (or_else v (Some (JStr [])))"
  by (simp add: or_else_def truthy_not_nullish)

subsection \<open>Writes to an element\<close>

lemma setText_JStr: "setText h el (Some (JStr s)) = Inr (setText_str el s)"
  by (cases el) (simp_all add: setText_def setText_str_def coalesce_def String_of_def)

lemma setText_String:
  assumes "\<not> nullish v" "String_of h v = Inr s"
  shows "setText h el v = Inr (setText_str el s)"
  using assms by (cases el) (simp_all add: setText_def setText_str_def coalesce_def)

lemma setText_None: "setText h None v = Inr None"
  by (simp add: setText_def)

lemma setText_str_twice: "setText_str (setText_str el s) s' = setText_str el s'"
  by (cases el) (simp_all add: setText_str_def)

lemma setHTML_twice: "setHTML (setHTML el s) s' = setHTML el s'"
  by (cases el) (simp_all add: setHTML_def)

lemma setText_setHTML: "setText_str (setHTML el s) s' = setText_str el s'"
  "setHTML (setText_str el s) s' = setHTML el s'"
  by (cases el; simp add: setHTML_def setText_str_def)+

lemma set_width_valid:
  "css_width w \<Longrightarrow> set_width el w = map_option (\<lambda>e. e\<lparr>el_width := w\<rparr>) el"
  by (simp add: set_width_def)

lemma set_width_ignored: "\<not> css_width w \<Longrightarrow> set_width el w = el"
  by (simp add: set_width_def)

lemma set_width_twice: "css_width s' \<Longrightarrow> set_width (set_width el s) s' = set_width el s'"
  by (cases el) (simp_all add: set_width_def)

lemma css_width_0 [simp]: "css_width (js ''0%'')"
  by (simp add: css_width_def css_number_def css_exponent_def is_digit_def js_def)

lemma css_width_NaN [simp]: "\<not> css_width (js ''NaN%'')"
  by (simp add: css_width_def css_number_def css_exponent_def is_digit_def js_def)

lemma is_digit_of_nat: "n < 10 \<Longrightarrow> is_digit (of_nat (48 + n))"
proof -
  assume "n < 10"
  then have "n \<in> {0, 1, 2, 3, 4, 5, 6, 7, 8, 9}" by auto
  then show ?thesis by (auto simp: is_digit_def)
qed

lemma digits_are_digits: "digits n \<noteq> [] \<and> list_all is_digit (digits n)"
proof (induction n rule: digits.induct)
  case (1 n)
  show ?case
  proof (cases "n < 10")
    case True
    then show ?thesis using is_digit_of_nat [of n] by (simp add: digits.simps [of n])
  next
    case False
    then show ?thesis
      using 1 is_digit_of_nat [of "n mod 10"] by (simp add: digits.simps [of n])
  qed
qed

lemma css_number_digits:
  assumes "ds \<noteq> []" "list_all is_digit ds"
  shows "css_number ds"
proof -
  have all: "takeWhile is_digit ds = ds" "dropWhile is_digit ds = []"
    using assms(2) by (simp_all add: list_all_iff)
  show ?thesis
    unfolding css_number_def Let_def all using assms(1) by simp
qed

lemma css_width_digits: "css_width (digits n @ js ''%'')"
proof -
  obtain c t where ct: "digits n = c # t"
    using digits_are_digits [of n] by (cases "digits n") simp_all
  have "is_digit c" using digits_are_digits [of n] ct by simp
  then have "c \<noteq> 0x2B" by (auto simp: is_digit_def)
  moreover have "css_number (c # t)"
    using css_number_digits [of "digits n"] digits_are_digits [of n] ct by simp
  moreover have "butlast (digits n @ js ''%'') = digits n" "last (digits n @ js ''%'') = 0x25"
    by (simp_all add: js_def butlast_append)
  ultimately show ?thesis by (simp add: css_width_def ct)
qed


text \<open>
  Marking an element with a state removes the three state classes first, so only the
  last mark counts.
\<close>

lemma remove_state_classes_idem:
  "remove_state_classes (remove_state_classes cs) = remove_state_classes cs"
  by (simp add: remove_state_classes_def)

lemma remove_state_classes_add:
  "st \<noteq> St_idle \<Longrightarrow>
   remove_state_classes (class_add (remove_state_classes cs) (state_name st)) = remove_state_classes cs"
  by (cases st) (simp_all add: remove_state_classes_def class_add_def state_name_def)

lemma mark_mark: "mark st' (mark st e) = mark st' e"
  by (simp add: mark_def remove_state_classes_idem remove_state_classes_add)

lemma mark_content: "(mark st e)\<lparr>el_content := c\<rparr> = mark st (e\<lparr>el_content := c\<rparr>)"
  by (simp add: mark_def)

lemma setText_str_mark:
  "setText_str (map_option (mark st') (setText_str (map_option (mark st) el) s)) s' =
   setText_str (map_option (mark st') el) s'"
  by (cases el) (simp_all add: setText_str_def mark_def remove_state_classes_idem remove_state_classes_add)

lemma map_mark_mark: "map_option (mark st') (map_option (mark st) el) = map_option (mark st') el"
  by (cases el) (simp_all add: mark_mark)

lemmas el_simps = setText_str_twice setText_str_mark map_mark_mark setHTML_twice setText_setHTML

subsection \<open>The status indicator\<close>

lemma setStatus_frame [simp]:
  "claimInput (setStatus p st d) = claimInput p"
  "evidenceInput (setStatus p st d) = evidenceInput p"
  "resultTitle (setStatus p st d) = resultTitle p"
  "resultBadge (setStatus p st d) = resultBadge p"
  "scoreLabel (setStatus p st d) = scoreLabel p"
  "scoreBar (setStatus p st d) = scoreBar p"
  "scorePct (setStatus p st d) = scorePct p"
  "whyList (setStatus p st d) = whyList p"
  "citationsBox (setStatus p st d) = citationsBox p"
  "debugBox (setStatus p st d) = debugBox p"
  "claim_focused (setStatus p st d) = claim_focused p"
  by (simp_all add: setStatus_def)

lemma setStatus_indicator:
  "apiPill (setStatus p st d) = map_option (mark st) (apiPill p)"
  "apiStatus (setStatus p st d) =
     setText_str (map_option (mark st) (apiStatus p)) (if d = [] then state_name st else d)"
  by (simp_all add: setStatus_def)

lemma connectivity_setStatus:
  "connectivity (setStatus p st d) =
     (map_option (mark st) (apiPill p),
      setText_str (map_option (mark st) (apiStatus p)) (if d = [] then state_name st else d))"
  by (simp add: connectivity_def setStatus_def)

section \<open>Properties of the transport\<close>

text \<open>
  \<open>checkClaim\<close> returns exactly when \<open>fetch\<close> is answered before the deadline and the
  body can be read; its \<open>data\<close> is then the parsed body, or the object that stands for
  a body that is not JSON.
\<close>

lemma checkClaim_Inr_iff:
  "checkClaim h run = Inr c \<longleftrightarrow>
     (\<exists>t r b. run = Responds t r \<and> t < FETCH_TIMEOUT_MS \<and> res_body r = Body b \<and>
        c = \<lparr>cr_res = r, cr_data = parse_body h b, cr_raw = b\<rparr>)"
  by (cases run) (auto simp: checkClaim_def fetchWithTimeout_def split: body_read.splits)


lemma bad_response_marked:
  "truthy (get_prop (bad_response b) (js ''error''))"
  "get_prop (bad_response b) (js ''raw'') = Some (JStr b)"
  by (simp_all add: bad_response_def get_prop_def truthy_def js_def)

lemma fetch_timed_out:
  assumes "run = Hangs \<or> (\<exists>t r. run = Responds t r \<and> limit \<le> t) \<or>
           (\<exists>t m. run = Fails t m \<and> limit \<le> t)"
  shows "fetchWithTimeout h run limit = Inl (AbortError h)"
  using assms by (auto simp: fetchWithTimeout_def)

lemma fetch_failed:
  assumes "run = Fails t m" "t < limit"
  shows "fetchWithTimeout h run limit = Inl (network_error m)"
  using assms by (simp add: fetchWithTimeout_def)


section \<open>Properties of the check handler\<close>

subsection \<open>The checking state and the error branches\<close>

lemma checking_state_fields:
  "claimInput (checking_state p) = claimInput p"
  "evidenceInput (checking_state p) = evidenceInput p"
  "scoreLabel (checking_state p) = scoreLabel p"
  "claim_focused (checking_state p) = claim_focused p"
  "scoreBar (checking_state p) = set_width (scoreBar p) (js ''0%'')"
  "scorePct (checking_state p) = setText_str (scorePct p) [0x2014]"
  "apiPill (checking_state p) = map_option (mark St_checking) (apiPill p)"
  "apiStatus (checking_state p) =
     setText_str (map_option (mark St_checking) (apiStatus p)) (js ''Checking'' @ [0x2026])"
  "resultTitle (checking_state p) = setText_str (resultTitle p) (js ''Checking'' @ [0x2026])"
  "resultBadge (checking_state p) = setText_str (resultBadge p) []"
  "debugBox (checking_state p) = setText_str (debugBox p) []"
  by (simp_all add: checking_state_def Let_def setStatus_def)


lemma http_error_fields:
  "apiPill (http_error r b q) = map_option (mark St_error) (apiPill q)"
  "apiStatus (http_error r b q) =
     setText_str (map_option (mark St_error) (apiStatus q))
       (js ''API error ('' @ digits (res_status r) @ js '')'')"
  "resultTitle (http_error r b q) = setText_str (resultTitle q) (js ''Error'')"
  "resultBadge (http_error r b q) = setText_str (resultBadge q) (js ''HTTP '' @ digits (res_status r))"
  "whyList (http_error r b q) =
     setHTML (whyList q)
       (js ''<li>Backend returned HTTP '' @ digits (res_status r) @ js ''.</li>'' @ nl 13 @
        js ''<li>Most common cause: wrong route or method (needs <b>POST '' @
        CHECK_ENDPOINT @ js ''</b>).</li>'')"
  "citationsBox (http_error r b q) = setHTML (citationsBox q) none_div"
  "debugBox (http_error r b q) =
     setText_str (debugBox q)
       (js ''[HTTP '' @ digits (res_status r) @ js ''] '' @ res_statusText r @
        [0x0A, 0x0A] @ js ''RAW:'' @ [0x0A] @ slice0 2000 b)"
  "scoreBar (http_error r b q) = scoreBar q"
  "scorePct (http_error r b q) = scorePct q"
  "scoreLabel (http_error r b q) = scoreLabel q"
  "claimInput (http_error r b q) = claimInput q"
  "evidenceInput (http_error r b q) = evidenceInput q"
  "claim_focused (http_error r b q) = claim_focused q"
  by (simp_all add: http_error_def Let_def setStatus_def)




lemma payload_error_fields:
  "apiPill (fst (payload_error h d b q)) = map_option (mark St_error) (apiPill q)"
  "apiStatus (fst (payload_error h d b q)) =
     setText_str (map_option (mark St_error) (apiStatus q)) (js ''Bad response'')"
  "resultTitle (fst (payload_error h d b q)) = setText_str (resultTitle q) (js ''Error'')"
  "resultBadge (fst (payload_error h d b q)) = setText_str (resultBadge q) (js ''Bad response'')"
  "whyList (fst (payload_error h d b q)) =
     setHTML (whyList q)
       (js ''<li>Backend responded, but payload wasn'' @ [0x2019] @ js ''t usable JSON.</li>'' @
        nl 13 @ js ''<li>See Debug for raw response.</li>'')"
  "citationsBox (fst (payload_error h d b q)) = setHTML (citationsBox q) none_div"
  "scoreBar (fst (payload_error h d b q)) = scoreBar q"
  "scorePct (fst (payload_error h d b q)) = scorePct q"
  "scoreLabel (fst (payload_error h d b q)) = scoreLabel q"
  "claimInput (fst (payload_error h d b q)) = claimInput q"
  "evidenceInput (fst (payload_error h d b q)) = evidenceInput q"
  "claim_focused (fst (payload_error h d b q)) = claim_focused q"
  by (simp_all add: payload_error_def Let_def setStatus_def split: option.splits sum.splits)


lemma catch_message_cases:
  "catch_message (AbortError h) = js ''Request timed out''"
  "catch_message (network_error m) = js ''Failed to fetch''"
  "js ''Request timed out'' \<noteq> js ''Failed to fetch''"
  "err_name (AbortError h) \<noteq> err_name (network_error m)"
  by (simp_all add: catch_message_def AbortError_def network_error_def js_def)

lemma catch_check_fields:
  "apiPill (catch_check e q) = map_option (mark St_error) (apiPill q)"
  "apiStatus (catch_check e q) =
     setText_str (map_option (mark St_error) (apiStatus q)) (catch_message e)"
  "resultTitle (catch_check e q) = setText_str (resultTitle q) (js ''Error'')"
  "resultBadge (catch_check e q) = setText_str (resultBadge q) (catch_message e)"
  "citationsBox (catch_check e q) = setHTML (citationsBox q) none_div"
  "scoreBar (catch_check e q) = scoreBar q"
  "scorePct (catch_check e q) = scorePct q"
  "scoreLabel (catch_check e q) = scoreLabel q"
  "claimInput (catch_check e q) = claimInput q"
  "evidenceInput (catch_check e q) = evidenceInput q"
  "claim_focused (catch_check e q) = claim_focused q"
  by (simp_all add: catch_check_def Let_def setStatus_def catch_message_def)

subsection \<open>The handler, outcome by outcome\<close>

lemma onCheck_ok:
  assumes "claim_of p \<noteq> []" "checkClaim h run = Inr c" "res_ok (cr_res c)"
    "\<not> truthy (get_prop (cr_data c) (js ''error''))"
    "snd (render_result h (claim_of p) (evidence_of p) (cr_data c) (checking_state p)) = None"
  shows "onCheck h run p = fst (render_result h (claim_of p) (evidence_of p) (cr_data c) (checking_state p))"
  using assms
  by (cases "render_result h (claim_of p) (evidence_of p) (cr_data c) (checking_state p)")
     (simp add: onCheck_def try_check_def)



lemma onCheck_rejected:
  assumes "claim_of p \<noteq> []" "fetchWithTimeout h run FETCH_TIMEOUT_MS = Inl e"
  shows "onCheck h run p = catch_check e (checking_state p)"
  using assms by (simp add: onCheck_def try_check_def checkClaim_def)

subsection \<open>Score and percentage\<close>

lemma score_field_cases:
  "score_field d =
     (if \<not> nullish (get_prop d (js ''score'')) then get_prop d (js ''score'')
      else if \<not> nullish (get_prop d (js ''confidence'')) then get_prop d (js ''confidence'')
      else Some (JNum (Fin 0)))"
  by (simp add: score_field_def coalesce_def)

lemma Number_JNum: "Number h (Some (JNum x)) = Inr x"
  by (simp add: Number_def)

lemma pct_of_Fin: "pct_of (Fin x) = Fin (of_int (max 0 (min 100 \<lfloor>x + 1 / 2\<rfloor>)))"
  by (simp add: pct_of_def Math_round_def Math_min_def Math_max_def min_def max_def)

lemma pct_of_inf: "pct_of PosInf = Fin 100" "pct_of NegInf = Fin 0" "pct_of NaN = NaN"
  by (simp_all add: pct_of_def Math_round_def Math_min_def Math_max_def)

lemma round_nearest: "\<bar>of_int \<lfloor>x + 1 / 2\<rfloor> - x\<bar> \<le> (1 / 2 :: rat)"
  by linarith

lemma NumberToString_int:
  assumes "\<bar>k\<bar> \<le> 2 ^ 53"
  shows "NumberToString h (Fin (of_int k)) = int_to_string k"
proof -
  have "\<bar>rat_of_int k\<bar> \<le> 2 ^ 53"
    using assms by (metis of_int_abs of_int_le_iff of_int_numeral of_int_power)
  then show ?thesis by (simp add: NumberToString_def)
qed

lemma pct_text_int:
  assumes "0 \<le> k" "k \<le> 100"
  shows "pct_text h (Fin (of_int k)) = int_to_string k @ js ''%''"
proof -
  have "\<bar>k\<bar> \<le> 2 ^ 53" using assms by simp
  then show ?thesis by (simp add: pct_text_def NumberToString_int)
qed

lemma pct_of_range:
  assumes "n \<noteq> NaN"
  shows "\<exists>k. 0 \<le> k \<and> k \<le> 100 \<and> pct_of n = Fin (of_int k) \<and>
             pct_text h (pct_of n) = int_to_string k @ js ''%''"
proof (cases n)
  case NaN
  with assms show ?thesis by simp
next
  case PosInf
  then show ?thesis using pct_text_int [of 100 h] by (intro exI [of _ 100]) (simp add: pct_of_inf)
next
  case NegInf
  then show ?thesis using pct_text_int [of 0 h] by (intro exI [of _ 0]) (simp add: pct_of_inf)
next
  case (Fin x)
  then show ?thesis
    using pct_text_int [of "max 0 (min 100 \<lfloor>x + 1 / 2\<rfloor>)" h]
    by (intro exI [of _ "max 0 (min 100 \<lfloor>x + 1 / 2\<rfloor>)"]) (simp add: pct_of_Fin)
qed

lemma digits_examples: "digits 0 = js ''0''" "digits 100 = js ''100''" "digits 500 = js ''500''"
  by (simp_all add: digits.simps js_def)

lemma pct_examples:
  "pct_text h (pct_of (Fin (1427 / 10))) = js ''100%''"
  "pct_text h (pct_of (Fin (- 5))) = js ''0%''"
proof -
  have "\<lfloor>(1427 / 10 :: rat) + 1 / 2\<rfloor> = 143" by (simp add: floor_eq_iff)
  then have "pct_of (Fin (1427 / 10)) = Fin (of_int 100)" by (simp add: pct_of_Fin)
  then show "pct_text h (pct_of (Fin (1427 / 10))) = js ''100%''"
    using pct_text_int [of 100 h] by (simp add: int_to_string_def digits_examples js_def)
  have "\<lfloor>(- 5 :: rat) + 1 / 2\<rfloor> = - 5" by (simp add: floor_eq_iff)
  then have "pct_of (Fin (- 5)) = Fin (of_int 0)" by (simp add: pct_of_Fin)
  then show "pct_text h (pct_of (Fin (- 5))) = js ''0%''"
    using pct_text_int [of 0 h] by (simp add: int_to_string_def digits_examples js_def)
qed

subsection \<open>Rendering a result\<close>

text \<open>
  What a rendering that raised no exception has written, and a sufficient condition
  for raising none.
\<close>

lemmas render_defs = render_result_def show_verdict_def show_score_def show_why_def
  show_citations_def show_debug_def

lemma render_ok_score:
  assumes "snd (render_result h claim ev d q) = None" "Number h (score_field d) = Inr n"
  shows "scorePct (fst (render_result h claim ev d q)) = setText_str (scorePct q) (pct_text h (pct_of n))"
    "scoreBar (fst (render_result h claim ev d q)) = set_width (scoreBar q) (pct_text h (pct_of n))"
  using assms
  by (auto simp: render_defs split: sum.splits option.splits)

lemma render_ok_Number:
  assumes "snd (render_result h claim ev d q) = None"
  shows "\<exists>n. Number h (score_field d) = Inr n"
  using assms by (auto simp: render_result_def split: sum.splits)

lemma render_ok_title:
  assumes "snd (render_result h claim ev d q) = None" "Number h (score_field d) = Inr n"
  shows "Inr (resultTitle (fst (render_result h claim ev d q)))
           = setText h (resultTitle q) (label (verdict_of d n))"
    "Inr (resultBadge (fst (render_result h claim ev d q)))
           = setText h (resultBadge q) (or_else (badge (verdict_of d n)) (Some (JStr [])))"
  using assms
  by (auto simp: render_defs split: sum.splits option.splits)


lemma render_completes:
  assumes "Number h (score_field d) = Inr n"
    and "setText h (resultTitle q) (label (verdict_of d n)) = Inr t"
    and "setText h (resultBadge q) (or_else (badge (verdict_of d n)) (Some (JStr []))) = Inr bb"
    and "whyList q = None \<or> why_html h claim ev (array_field d (js ''why'')) = Inr html"
    and "citationsBox q = None \<or> renderCitations h (array_field d (js ''citations'')) = Inr ch"
  shows "snd (render_result h claim ev d q) = None"
  using assms
  by (auto simp: render_defs split: sum.splits option.splits)

lemma verdict_of_truthy:
  "truthy (get_prop d (js ''verdict'')) \<Longrightarrow>
   verdict_of d n = \<lparr>label = get_prop d (js ''verdict''),
                     badge = or_else (get_prop d (js ''badge'')) (Some (JStr []))\<rparr>"
  by (simp add: verdict_of_def)

lemma verdict_of_falsy:
  "\<not> truthy (get_prop d (js ''verdict'')) \<Longrightarrow>
   verdict_of d n = \<lparr>label = Some (JStr (label (verdictFromScore n))),
                     badge = Some (JStr (badge (verdictFromScore n)))\<rparr>"
  by (simp add: verdict_of_def Let_def)




subsection \<open>The expected body\<close>

lemma text_or_expected: "absent_or_string v \<Longrightarrow> \<exists>t. text_or h v dflt = Inr t"
  by (auto simp: absent_or_string_def text_or_def truthy_def split: option.splits json.splits)

lemma citation_item_expected: "is_citation c \<Longrightarrow> \<exists>x. citation_item h i c = Inr x"
proof -
  assume c: "is_citation c"
  then obtain kv where kv: "c = JObj kv"
    by (auto simp: is_citation_def split: json.splits)
  from c kv obtain t u sn where
    "text_or h (get_prop c (js ''title'')) (js ''Source '' @ digits (i + 1)) = Inr t"
    "text_or h (get_prop c (js ''url'')) [] = Inr u"
    "text_or h (get_prop c (js ''snippet'')) [] = Inr sn"
    using text_or_expected [of "get_prop c (js ''title'')" h "js ''Source '' @ digits (i + 1)"]
      text_or_expected [of "get_prop c (js ''url'')" h "[]"]
      text_or_expected [of "get_prop c (js ''snippet'')" h "[]"]
    by (auto simp: is_citation_def get_prop_def)
  then show ?thesis using kv by (simp add: citation_item_def)
qed

lemma citation_items_expected: "list_all is_citation cs \<Longrightarrow> \<exists>xs. citation_items h i cs = Inr xs"
proof (induction cs arbitrary: i)
  case Nil
  show ?case by simp
next
  case (Cons c cs)
  from Cons.prems have c: "is_citation c" and cs: "list_all is_citation cs" by simp_all
  obtain x where "citation_item h i c = Inr x"
    using citation_item_expected [OF c, of h i] by blast
  moreover obtain xs where "citation_items h (Suc i) cs = Inr xs"
    using Cons.IH [OF cs, of "Suc i"] by blast
  ultimately show ?case by simp
qed

lemma renderCitations_expected: "list_all is_citation cs \<Longrightarrow> \<exists>html. renderCitations h cs = Inr html"
  using citation_items_expected [of cs h 0] by (auto simp: renderCitations_def)

lemma why_items_expected: "list_all is_string xs \<Longrightarrow> \<exists>ts. why_items h xs = Inr ts"
proof (induction xs)
  case Nil
  show ?case by simp
next
  case (Cons x xs)
  then obtain s ts where "x = JStr s" "why_items h xs = Inr ts"
    by (auto simp: is_string_def split: json.splits)
  then show ?case by simp
qed

lemma why_html_expected: "list_all is_string xs \<Longrightarrow> \<exists>html. why_html h cl ev xs = Inr html"
  using why_items_expected [of xs h] by (auto simp: why_html_def)

lemma Number_expected:
  assumes "absent_or_number (get_prop d (js ''score''))"
    "absent_or_number (get_prop d (js ''confidence''))"
  shows "\<exists>n. Number h (score_field d) = Inr n"
  using assms
  by (auto simp: absent_or_number_def score_field_cases Number_def split: option.splits json.splits)

lemma verdict_text_expected:
  assumes "absent_or_string (get_prop d (js ''verdict''))"
    "absent_or_string (get_prop d (js ''badge''))"
  shows "\<exists>s. label (verdict_of d n) = Some (JStr s)"
    "\<exists>s. or_else (badge (verdict_of d n)) (Some (JStr [])) = Some (JStr s)"
  using assms
  by (auto simp: absent_or_string_def verdict_of_def or_else_def truthy_def Let_def
      split: option.splits json.splits)

text \<open>
  A body of the expected shape is rendered without an exception: no conversion of one
  of its fields throws.
\<close>

lemma expected_body_renders:
  assumes "expected_body d"
  shows "snd (render_result h cl ev d q) = None"
proof -
  from assms obtain n where n: "Number h (score_field d) = Inr n"
    using Number_expected [of d h] by (auto simp: expected_body_def)
  from assms obtain s t where
    "label (verdict_of d n) = Some (JStr s)"
    "or_else (badge (verdict_of d n)) (Some (JStr [])) = Some (JStr t)"
    using verdict_text_expected [of d n] by (auto simp: expected_body_def)
  then have title: "setText h (resultTitle q) (label (verdict_of d n)) = Inr (setText_str (resultTitle q) s)"
    and badge: "setText h (resultBadge q) (or_else (badge (verdict_of d n)) (Some (JStr [])))
                  = Inr (setText_str (resultBadge q) t)"
    by (simp_all add: setText_JStr)
  from assms obtain wh where wh: "why_html h cl ev (array_field d (js ''why'')) = Inr wh"
    using why_html_expected [of "array_field d (js ''why'')" h cl ev] by (auto simp: expected_body_def)
  from assms obtain ch where ch: "renderCitations h (array_field d (js ''citations'')) = Inr ch"
    using renderCitations_expected [of "array_field d (js ''citations'')" h]
    by (auto simp: expected_body_def)
  show ?thesis
    by (rule render_completes [OF n title badge disjI2 [OF wh] disjI2 [OF ch]])
qed


lemma expected_verdict_cases:
  assumes "expected_body d"
  shows "truthy (get_prop d (js ''verdict'')) \<longleftrightarrow>
         (\<exists>s. get_prop d (js ''verdict'') = Some (JStr s) \<and> s \<noteq> [])"
  using assms
  by (auto simp: expected_body_def absent_or_string_def truthy_def split: option.splits json.splits)

subsection \<open>What the ok state shows\<close>

text \<open>
  A check is in the ok state when the fetch was answered in time, the body was read,
  the status is successful, the body has no truthy \<open>error\<close>, and the rendering raised
  no exception. The score is written before the explanations and the citations are
  rendered, and stays when these throw: the first lemmas say which score the page
  shows for any body, the others what a rendering without exception shows.
\<close>

lemma setText_throws:
  "isl (setText h el v) \<longleftrightarrow> el \<noteq> None \<and> isl (String_of h (coalesce v (Some (JStr []))))"
  by (cases el) (simp_all add: setText_def split: sum.splits)

lemma setText_str_None_iff: "setText_str el s = None \<longleftrightarrow> el = None"
  by (cases el) (simp_all add: setText_str_def)

lemma written_score_checking: "written_score h (checking_state p) d = written_score h p d"
  by (simp add: written_score_def setText_throws checking_state_fields setText_str_None_iff Let_def
      split: sum.splits)

lemma written_score_Number: "written_score h p d = Some n \<Longrightarrow> Number h (score_field d) = Inr n"
  by (auto simp: written_score_def Let_def split: sum.splits if_splits)

lemma render_score:
  "scorePct (fst (render_result h cl ev d q)) =
     (case written_score h q d of
        None \<Rightarrow> scorePct q
      | Some n \<Rightarrow> setText_str (scorePct q) (pct_text h (pct_of n)))"
  "scoreBar (fst (render_result h cl ev d q)) =
     (case written_score h q d of
        None \<Rightarrow> scoreBar q
      | Some n \<Rightarrow> set_width (scoreBar q) (pct_text h (pct_of n)))"
  by (auto simp: render_defs written_score_def Let_def split: sum.splits option.splits)

lemma onCheck_score:
  assumes "claim_of p \<noteq> []"
    and "checkClaim h run = Inr c"
    and "res_ok (cr_res c)"
    and "\<not> truthy (get_prop (cr_data c) (js ''error''))"
  shows "scorePct (onCheck h run p) =
     (case written_score h p (cr_data c) of
        None \<Rightarrow> setText_str (scorePct p) [0x2014]
      | Some n \<Rightarrow> setText_str (scorePct p) (pct_text h (pct_of n)))"
    and "scoreBar (onCheck h run p) =
     (case written_score h p (cr_data c) of
        None \<Rightarrow> set_width (scoreBar p) (js ''0%'')
      | Some n \<Rightarrow> set_width (set_width (scoreBar p) (js ''0%'')) (pct_text h (pct_of n)))"
proof -
  let ?q = "checking_state p"
  let ?r = "render_result h (claim_of p) (evidence_of p) (cr_data c) ?q"
  have run: "onCheck h run p = (case ?r of (p', None) \<Rightarrow> p' | (p', Some e) \<Rightarrow> catch_check e p')"
    using assms by (simp add: onCheck_def try_check_def)
  have frame: "scorePct (onCheck h run p) = scorePct (fst ?r)"
    "scoreBar (onCheck h run p) = scoreBar (fst ?r)"
    unfolding run by (simp_all add: catch_check_fields split: prod.splits option.splits)
  show "scorePct (onCheck h run p) =
     (case written_score h p (cr_data c) of
        None \<Rightarrow> setText_str (scorePct p) [0x2014]
      | Some n \<Rightarrow> setText_str (scorePct p) (pct_text h (pct_of n)))"
    unfolding frame render_score written_score_checking
    by (simp add: checking_state_fields el_simps split: option.splits)
  show "scoreBar (onCheck h run p) =
     (case written_score h p (cr_data c) of
        None \<Rightarrow> set_width (scoreBar p) (js ''0%'')
      | Some n \<Rightarrow> set_width (set_width (scoreBar p) (js ''0%'')) (pct_text h (pct_of n)))"
    unfolding frame render_score written_score_checking
    by (simp add: checking_state_fields split: option.splits)
qed

lemma bar_shown:
  assumes "0 \<le> k"
  shows "set_width (set_width el (js ''0%'')) (int_to_string k @ js ''%'') =
         map_option (\<lambda>e. e\<lparr>el_width := int_to_string k @ js ''%''\<rparr>) el"
proof -
  have "css_width (int_to_string k @ js ''%'')"
    using assms css_width_digits [of "nat k"] by (simp add: int_to_string_def)
  then show ?thesis by (cases el) (simp_all add: set_width_def)
qed

lemma bar_kept: "set_width (set_width el (js ''0%'')) (js ''NaN%'') = set_width el (js ''0%'')"
  by (simp add: set_width_ignored)

lemma pct_text_NaN: "pct_text h (pct_of NaN) = js ''NaN%''"
  by (simp add: pct_of_inf pct_text_def NumberToString_def js_def)

lemma Number_cases:
  "Number h (Some (JStr s)) = Inr (StringToNumber h s)"
  "Number h (Some (JBool b)) = Inr (if b then Fin 1 else Fin 0)"
  by (simp_all add: Number_def)

lemma expected_written_score:
  assumes "expected_body d"
  shows "\<exists>n. written_score h p d = Some n"
proof -
  let ?r = "render_result h cl ev d p"
  obtain n where n: "Number h (score_field d) = Inr n"
    using render_ok_Number [OF expected_body_renders [OF assms, of h "[]" "[]" p]] by blast
  have "isl (setText h (resultTitle p) (label (verdict_of d n))) = False"
    "isl (setText h (resultBadge p) (or_else (badge (verdict_of d n)) (Some (JStr [])))) = False"
    using render_ok_title [OF expected_body_renders [OF assms, of h "[]" "[]" p] n]
    by (metis sum.disc(2))+
  then show ?thesis using n by (simp add: written_score_def)
qed

lemma verdict_shown:
  assumes "claim_of p \<noteq> []"
    and "checkClaim h run = Inr c"
    and "res_ok (cr_res c)"
    and "\<not> truthy (get_prop (cr_data c) (js ''error''))"
    and "snd (render_result h (claim_of p) (evidence_of p) (cr_data c) (checking_state p)) = None"
    and "Number h (score_field (cr_data c)) = Inr n"
  shows
   "(truthy (get_prop (cr_data c) (js ''verdict'')) \<longrightarrow>
       (\<forall>l. String_of h (get_prop (cr_data c) (js ''verdict'')) = Inr l \<longrightarrow>
            resultTitle (onCheck h run p) = setText_str (resultTitle p) l) \<and>
       (\<forall>b. String_of h (or_else (get_prop (cr_data c) (js ''badge'')) (Some (JStr []))) = Inr b \<longrightarrow>
            resultBadge (onCheck h run p) = setText_str (resultBadge p) b)) \<and>
    (\<forall>s t. get_prop (cr_data c) (js ''verdict'') = Some (JStr s) \<and> s \<noteq> [] \<and>
           get_prop (cr_data c) (js ''badge'') = Some (JStr t) \<longrightarrow>
           resultTitle (onCheck h run p) = setText_str (resultTitle p) s \<and>
           resultBadge (onCheck h run p) = setText_str (resultBadge p) t) \<and>
    (\<not> truthy (get_prop (cr_data c) (js ''verdict'')) \<longrightarrow>
       resultTitle (onCheck h run p) = setText_str (resultTitle p) (label (verdictFromScore n)) \<and>
       resultBadge (onCheck h run p) = setText_str (resultBadge p) (badge (verdictFromScore n)))"
proof -
  let ?d = "cr_data c"
  let ?q = "checking_state p"
  let ?r = "render_result h (claim_of p) (evidence_of p) ?d ?q"
  let ?v = "get_prop ?d (js ''verdict'')"
  let ?b = "or_else (get_prop ?d (js ''badge'')) (Some (JStr []))"
  have run: "onCheck h run p = fst ?r"
    using assms(1-5) by (rule onCheck_ok)
  note shown = render_ok_title [OF assms(5,6)]
  have given: "resultTitle (fst ?r) = setText_str (resultTitle p) l"
    if "truthy ?v" "String_of h ?v = Inr l" for l
    using shown(1) that setText_String [of ?v h l "resultTitle ?q"]
    by (simp add: verdict_of_truthy truthy_not_nullish checking_state_fields el_simps)
  have given_badge: "resultBadge (fst ?r) = setText_str (resultBadge p) b"
    if "truthy ?v" "String_of h ?b = Inr b" for b
    using shown(2) that setText_String [of ?b h b "resultBadge ?q"]
    by (simp add: verdict_of_truthy or_else_idem or_else_not_nullish checking_state_fields el_simps)
  have strings: "resultTitle (fst ?r) = setText_str (resultTitle p) s \<and>
      resultBadge (fst ?r) = setText_str (resultBadge p) t"
    if "?v = Some (JStr s)" "s \<noteq> []" "get_prop ?d (js ''badge'') = Some (JStr t)" for s t
  proof -
    have "truthy ?v" using that by (simp add: truthy_def)
    moreover have "String_of h ?v = Inr s" using that by (simp add: String_of_def)
    moreover have "String_of h ?b = Inr t" using that by (simp add: or_else_JStr String_of_def)
    ultimately show ?thesis using given given_badge by blast
  qed
  have derived: "resultTitle (fst ?r) = setText_str (resultTitle p) (label (verdictFromScore n)) \<and>
      resultBadge (fst ?r) = setText_str (resultBadge p) (badge (verdictFromScore n))"
    if "\<not> truthy ?v"
    using shown that
    by (simp add: verdict_of_falsy or_else_JStr setText_JStr checking_state_fields el_simps)
  show ?thesis
    unfolding run using given given_badge strings derived by blast
qed


section \<open>Facts about the sample inputs\<close>

lemma claim_of_full_page: "claim_of (full_page c e) = trim c"
  by (simp add: claim_of_def full_page_def)

lemma checkClaim_answer:
  "checkClaim (replying body d) (answer status body) =
     Inr \<lparr>cr_res = \<lparr>res_status = status, res_statusText = [], res_body = Body body\<rparr>,
          cr_data = d, cr_raw = body\<rparr>"
  by (simp add: checkClaim_def fetchWithTimeout_def FETCH_TIMEOUT_MS_def answer_def parse_body_def
      replying_def host_of_def)

lemma checkClaim_silent:
  "checkClaim silent (answer status body) =
     Inr \<lparr>cr_res = \<lparr>res_status = status, res_statusText = [], res_body = Body body\<rparr>,
          cr_data = bad_response body, cr_raw = body\<rparr>"
  by (simp add: checkClaim_def fetchWithTimeout_def FETCH_TIMEOUT_MS_def answer_def parse_body_def
      silent_def host_of_def)

lemma res_ok_200: "res_ok \<lparr>res_status = 200, res_statusText = t, res_body = b\<rparr>"
  by (simp add: res_ok_def)

lemma claim_of_sky: "claim_of sky_page = js ''The sky is blue''"
  by (simp add: sky_page_def claim_of_full_page trim_def js_def is_space_def)

lemma evidence_of_sky: "evidence_of sky_page = []"
  by (simp add: sky_page_def evidence_of_def full_page_def extractUrls_def)

lemma sky_fields:
  "apiPill sky_page = Some blank" "apiStatus sky_page = Some blank"
  "resultTitle sky_page = Some blank" "resultBadge sky_page = Some blank"
  "scoreLabel sky_page = Some blank" "scoreBar sky_page = Some blank"
  "scorePct sky_page = Some blank" "whyList sky_page = Some blank"
  "citationsBox sky_page = Some blank" "debugBox sky_page = Some blank"
  by (simp_all add: sky_page_def full_page_def)




lemma score_value_facts:
  "get_prop score_value (js ''error'') = None"
  "get_prop score_value (js ''score'') = Some (JNum (Fin (1427 / 10)))"
  "expected_body score_value"
  by (simp_all add: score_value_def get_prop_def expected_body_def absent_or_number_def
      absent_or_string_def array_field_def js_def)

lemma score_value_more:
  "get_prop score_value (js ''verdict'') = None"
  "array_field score_value (js ''why'') = []"
  by (simp_all add: score_value_def get_prop_def array_field_def js_def)

lemma score_value_written:
  "written_score (replying score_body score_value) sky_page score_value = Some (Fin (1427 / 10))"
  by (simp add: written_score_def score_field_cases score_value_facts score_value_more Number_JNum
      verdict_of_falsy truthy_def setText_JStr or_else_def)

lemma abc_value_facts:
  "get_prop abc_value (js ''error'') = None"
  "get_prop abc_value (js ''score'') = Some (JStr (js ''abc''))"
  "get_prop abc_value (js ''verdict'') = None"
  "Number (replying abc_body abc_value) (score_field abc_value) = Inr NaN"
  "written_score (replying abc_body abc_value) sky_page abc_value = Some NaN"
  "snd (render_result (replying abc_body abc_value) cl [] abc_value (checking_state sky_page)) = None"
proof -
  let ?h = "replying abc_body abc_value"
  show e: "get_prop abc_value (js ''error'') = None"
    and s: "get_prop abc_value (js ''score'') = Some (JStr (js ''abc''))"
    and v: "get_prop abc_value (js ''verdict'') = None"
    by (simp_all add: abc_value_def get_prop_def js_def)
  show n: "Number ?h (score_field abc_value) = Inr NaN"
    by (simp add: score_field_cases s nullish_def Number_cases replying_def host_of_def)
  have falsy: "\<not> truthy (get_prop abc_value (js ''verdict''))" by (simp add: v truthy_def)
  show "written_score ?h sky_page abc_value = Some NaN"
    by (simp add: written_score_def n verdict_of_falsy [OF falsy] setText_JStr or_else_def truthy_def)
  have arrays: "array_field abc_value (js ''why'') = []" "array_field abc_value (js ''citations'') = []"
    by (simp_all add: abc_value_def array_field_def get_prop_def js_def)
  obtain html where wh: "why_html ?h cl [] (array_field abc_value (js ''why'')) = Inr html"
    using why_html_expected [of "[]" ?h cl "[]"] by (auto simp: arrays)
  obtain ch where ch: "renderCitations ?h (array_field abc_value (js ''citations'')) = Inr ch"
    using renderCitations_expected [of "[]" ?h] by (auto simp: arrays)
  have title: "setText ?h (resultTitle (checking_state sky_page)) (label (verdict_of abc_value NaN)) =
      Inr (setText_str (resultTitle (checking_state sky_page)) (label (verdictFromScore NaN)))"
    by (simp add: verdict_of_falsy [OF falsy] setText_JStr)
  have badge: "setText ?h (resultBadge (checking_state sky_page))
        (or_else (badge (verdict_of abc_value NaN)) (Some (JStr []))) =
      Inr (setText_str (resultBadge (checking_state sky_page)) (badge (verdictFromScore NaN)))"
    by (simp add: verdict_of_falsy [OF falsy] setText_JStr or_else_def truthy_def verdictFromScore_def
        num_ge_def js_def)
  show "snd (render_result ?h cl [] abc_value (checking_state sky_page)) = None"
    by (rule render_completes [OF n title badge disjI2 [OF wh] disjI2 [OF ch]])
qed

lemma checkClaim_reading:
  "checkClaim (reading body d s x) (answer status body) =
     Inr \<lparr>cr_res = \<lparr>res_status = status, res_statusText = [], res_body = Body body\<rparr>,
          cr_data = d, cr_raw = body\<rparr>"
  by (simp add: checkClaim_def fetchWithTimeout_def FETCH_TIMEOUT_MS_def answer_def parse_body_def
      reading_def replying_def host_of_def)

lemma confidence_value_facts:
  "get_prop confidence_value (js ''error'') = None"
  "get_prop confidence_value (js ''score'') = Some JNull"
  "get_prop confidence_value (js ''confidence'') = Some (JStr (js ''61.5''))"
  "written_score (reading confidence_body confidence_value (js ''61.5'') (Fin (123 / 2))) sky_page
     confidence_value = Some (Fin (123 / 2))"
proof -
  let ?g = "reading confidence_body confidence_value (js ''61.5'') (Fin (123 / 2))"
  show e: "get_prop confidence_value (js ''error'') = None"
    and s: "get_prop confidence_value (js ''score'') = Some JNull"
    and c: "get_prop confidence_value (js ''confidence'') = Some (JStr (js ''61.5''))"
    by (simp_all add: confidence_value_def get_prop_def js_def)
  have v: "\<not> truthy (get_prop confidence_value (js ''verdict''))"
    by (simp add: confidence_value_def get_prop_def truthy_def js_def)
  have n: "Number ?g (score_field confidence_value) = Inr (Fin (123 / 2))"
    by (simp add: score_field_cases s c nullish_def Number_cases reading_def)
  show "written_score ?g sky_page confidence_value = Some (Fin (123 / 2))"
    by (simp add: written_score_def n verdict_of_falsy [OF v] setText_JStr or_else_def truthy_def)
qed

lemma pct_62: "pct_text h (pct_of (Fin (123 / 2))) = js ''62%''"
proof -
  have "\<lfloor>(123 / 2 :: rat) + 1 / 2\<rfloor> = 62" by (simp add: floor_eq_iff)
  then have "pct_of (Fin (123 / 2)) = Fin (of_int 62)" by (simp add: pct_of_Fin)
  moreover have "digits 62 = js ''62''" by (simp add: digits.simps js_def)
  ultimately show ?thesis
    using pct_text_int [of 62 h] by (simp add: int_to_string_def js_def)
qed

lemma css_width_100: "css_width (js ''100%'')"
  using css_width_digits [of 100] by (simp add: digits_examples js_def)

lemma css_width_62: "css_width (js ''62%'')"
proof -
  have "digits 62 = js ''62''" by (simp add: digits.simps js_def)
  then show ?thesis using css_width_digits [of 62] by (simp add: js_def)
qed





lemma probe_reachable:
  "probe h (answer 200 body) p = setStatus (setStatus p St_checking (js ''API: checking'' @ [0x2026]))
     St_ok (js ''API: reachable'')"
  by (simp add: probe_def pingWorker_def fetchWithTimeout_def answer_def res_ok_def Let_def)

section \<open>The claims about the check handler and the other actions\<close>

text \<open>
  In the theorems of this section, a submit that returned is \<open>checkClaim h run = Inr c\<close>:
  \<open>c\<close> holds the response, the parsed body and the raw text. The response is
  successful when \<open>res_ok\<close> holds of it and not error-marked when its body has no
  truthy \<open>error\<close>. In C4 and C5 the body of a successful response is of the expected
  shape; C2 is about every body.
\<close>

text \<open>
  C2 as stated fails for a score that is no number: the status is 200 and the body is
  \<open>{"score":"abc"}\<close>, which has no \<open>error\<close>. \<open>Number("abc")\<close> is \<open>NaN\<close>, and
  rounding and the two bounds leave \<open>NaN\<close> as it is: the result is shown, with the
  title derived from the score, and the percentage reads \<open>NaN%\<close>, which is neither
  at least 0 nor at most 100.
\<close>

theorem score_counterexample:
  "res_ok \<lparr>res_status = 200, res_statusText = [], res_body = Body abc_body\<rparr> \<and>
   JSON_parse (replying abc_body abc_value) abc_body = Some abc_value \<and>
   get_prop abc_value (js ''error'') = None \<and>
   get_prop abc_value (js ''score'') = Some (JStr (js ''abc'')) \<and>
   Number (replying abc_body abc_value) (score_field abc_value) = Inr NaN \<and>
   resultTitle (onCheck (replying abc_body abc_value) (answer 200 abc_body) sky_page) =
     Some (blank\<lparr>el_content := Text (js ''Unclear / likely false'')\<rparr>) \<and>
   scorePct (onCheck (replying abc_body abc_value) (answer 200 abc_body) sky_page) =
     Some (blank\<lparr>el_content := Text (js ''NaN%'')\<rparr>) \<and>
   pct_of NaN = NaN \<and>
   \<not> num_ge (pct_of NaN) (Fin 0) \<and>
   \<not> num_le (pct_of NaN) (Fin 100)"
proof -
  let ?h = "replying abc_body abc_value"
  let ?c = "\<lparr>cr_res = \<lparr>res_status = 200, res_statusText = [], res_body = Body abc_body\<rparr>,
          cr_data = abc_value, cr_raw = abc_body\<rparr>"
  have claim: "claim_of sky_page \<noteq> []" by (simp add: claim_of_sky)
  have fetched: "checkClaim ?h (answer 200 abc_body) = Inr ?c" by (rule checkClaim_answer)
  have ok: "res_ok (cr_res ?c)" by (simp add: res_ok_200)
  have unmarked: "\<not> truthy (get_prop (cr_data ?c) (js ''error''))"
    by (simp add: abc_value_facts truthy_def)
  have num: "Number ?h (score_field (cr_data ?c)) = Inr NaN"
    by (simp add: abc_value_facts)
  have rendered: "snd (render_result ?h (claim_of sky_page) (evidence_of sky_page) (cr_data ?c)
      (checking_state sky_page)) = None"
    by (simp add: abc_value_facts evidence_of_sky)
  have low: "verdictFromScore NaN = \<lparr>label = js ''Unclear / likely false'', badge = js ''Low support''\<rparr>"
    by (simp add: verdictFromScore_def num_ge_def)
  have title: "resultTitle (onCheck ?h (answer 200 abc_body) sky_page) =
     Some (blank\<lparr>el_content := Text (js ''Unclear / likely false'')\<rparr>)"
    using verdict_shown [OF claim fetched ok unmarked rendered num]
    by (simp add: abc_value_facts truthy_def sky_fields setText_str_def low)
  have pct: "scorePct (onCheck ?h (answer 200 abc_body) sky_page) =
     Some (blank\<lparr>el_content := Text (js ''NaN%'')\<rparr>)"
    using onCheck_score(1) [OF claim fetched ok unmarked]
    by (simp add: abc_value_facts pct_text_NaN sky_fields setText_str_def)
  have parsed: "JSON_parse ?h abc_body = Some abc_value"
    by (simp add: replying_def host_of_def)
  have nan: "pct_of NaN = NaN" "\<not> num_ge (pct_of NaN) (Fin 0)" "\<not> num_le (pct_of NaN) (Fin 100)"
    by (simp_all add: pct_of_inf num_ge_def)
  show ?thesis
    using ok parsed num title pct nan by (simp add: abc_value_facts)
qed

text \<open>
  C2, as amended. For every successful response that is not error-marked, the score
  is \<open>Number(v)\<close>, where \<open>v\<close> is the field \<open>score\<close>, or \<open>confidence\<close> when \<open>score\<close> is
  missing or \<open>null\<close>, or 0 when both are: a number is taken as it is, a string is
  read as a number, \<open>true\<close> is 1 and \<open>false\<close> is 0. The percentage text and the
  width of the bar are \<open>`${pct}%`\<close>. A score that is a number is mapped into 0..100:
  a finite \<open>x\<close> to the integer nearest to it (at most one half away), cut off at 0
  and at 100, and the infinities to 100 and 0; text and width are then \<open>k%\<close> for an
  integer \<open>k\<close> of 0..100. A raw score of 142.7 is shown as \<open>100%\<close>, one of -5 as
  \<open>0%\<close>. A score that is \<open>NaN\<close>, as that of a string that is no number, is not
  mapped: the text is \<open>NaN%\<close> and the bar keeps the width \<open>0%\<close> of the checking
  state. The score is written after the title and the badge: when the conversion or
  one of these two writes throws, text and bar stay as the checking state left them.
\<close>

theorem score_display:
  assumes "claim_of p \<noteq> []"
    and "checkClaim h run = Inr c"
    and "res_ok (cr_res c)"
    and "\<not> truthy (get_prop (cr_data c) (js ''error''))"
  shows
   "(\<forall>n. written_score h p (cr_data c) = Some n \<longrightarrow>
        Number h (score_field (cr_data c)) = Inr n \<and>
        scorePct (onCheck h run p) = setText_str (scorePct p) (pct_text h (pct_of n)) \<and>
        scoreBar (onCheck h run p) =
          set_width (set_width (scoreBar p) (js ''0%'')) (pct_text h (pct_of n)) \<and>
        (\<forall>x. n = Fin x \<longrightarrow>
             pct_of n = Fin (of_int (max 0 (min 100 \<lfloor>x + 1 / 2\<rfloor>))) \<and>
             \<bar>of_int \<lfloor>x + 1 / 2\<rfloor> - x\<bar> \<le> 1 / 2) \<and>
        (n = PosInf \<longrightarrow> pct_of n = Fin 100) \<and>
        (n = NegInf \<longrightarrow> pct_of n = Fin 0) \<and>
        (n \<noteq> NaN \<longrightarrow>
           (\<exists>k. 0 \<le> k \<and> k \<le> 100 \<and> pct_of n = Fin (of_int k) \<and>
                scorePct (onCheck h run p) = setText_str (scorePct p) (int_to_string k @ js ''%'') \<and>
                scoreBar (onCheck h run p) =
                  map_option (\<lambda>e. e\<lparr>el_width := int_to_string k @ js ''%''\<rparr>) (scoreBar p))) \<and>
        (n = NaN \<longrightarrow>
           scorePct (onCheck h run p) = setText_str (scorePct p) (js ''NaN%'') \<and>
           scoreBar (onCheck h run p) = set_width (scoreBar p) (js ''0%''))) \<and>
    (written_score h p (cr_data c) = None \<longrightarrow>
       scorePct (onCheck h run p) = setText_str (scorePct p) [0x2014] \<and>
       scoreBar (onCheck h run p) = set_width (scoreBar p) (js ''0%'')) \<and>
    score_field (cr_data c) =
      (if \<not> nullish (get_prop (cr_data c) (js ''score'')) then get_prop (cr_data c) (js ''score'')
       else if \<not> nullish (get_prop (cr_data c) (js ''confidence''))
            then get_prop (cr_data c) (js ''confidence'')
       else Some (JNum (Fin 0))) \<and>
    (\<forall>x. score_field (cr_data c) = Some (JNum x) \<longrightarrow>
         Number h (score_field (cr_data c)) = Inr x) \<and>
    (\<forall>t. score_field (cr_data c) = Some (JStr t) \<longrightarrow>
         Number h (score_field (cr_data c)) = Inr (StringToNumber h t)) \<and>
    (\<forall>b. score_field (cr_data c) = Some (JBool b) \<longrightarrow>
         Number h (score_field (cr_data c)) = Inr (if b then Fin 1 else Fin 0)) \<and>
    pct_text h (pct_of (Fin (1427 / 10))) = js ''100%'' \<and>
    pct_text h (pct_of (Fin (- 5))) = js ''0%''"
proof -
  let ?d = "cr_data c"
  note shown = onCheck_score [OF assms]
  have written: "\<forall>n. written_score h p (cr_data c) = Some n \<longrightarrow>
        Number h (score_field (cr_data c)) = Inr n \<and>
        scorePct (onCheck h run p) = setText_str (scorePct p) (pct_text h (pct_of n)) \<and>
        scoreBar (onCheck h run p) =
          set_width (set_width (scoreBar p) (js ''0%'')) (pct_text h (pct_of n)) \<and>
        (\<forall>x. n = Fin x \<longrightarrow>
             pct_of n = Fin (of_int (max 0 (min 100 \<lfloor>x + 1 / 2\<rfloor>))) \<and>
             \<bar>of_int \<lfloor>x + 1 / 2\<rfloor> - x\<bar> \<le> 1 / 2) \<and>
        (n = PosInf \<longrightarrow> pct_of n = Fin 100) \<and>
        (n = NegInf \<longrightarrow> pct_of n = Fin 0) \<and>
        (n \<noteq> NaN \<longrightarrow>
           (\<exists>k. 0 \<le> k \<and> k \<le> 100 \<and> pct_of n = Fin (of_int k) \<and>
                scorePct (onCheck h run p) = setText_str (scorePct p) (int_to_string k @ js ''%'') \<and>
                scoreBar (onCheck h run p) =
                  map_option (\<lambda>e. e\<lparr>el_width := int_to_string k @ js ''%''\<rparr>) (scoreBar p))) \<and>
        (n = NaN \<longrightarrow>
           scorePct (onCheck h run p) = setText_str (scorePct p) (js ''NaN%'') \<and>
           scoreBar (onCheck h run p) = set_width (scoreBar p) (js ''0%''))"
  proof (intro allI impI)
    fix n
    assume w: "written_score h p (cr_data c) = Some n"
    have num: "Number h (score_field ?d) = Inr n"
      using w by (rule written_score_Number)
    have label: "scorePct (onCheck h run p) = setText_str (scorePct p) (pct_text h (pct_of n))"
      using shown(1) w by simp
    have bar: "scoreBar (onCheck h run p) =
        set_width (set_width (scoreBar p) (js ''0%'')) (pct_text h (pct_of n))"
      using shown(2) w by simp
    have rnd: "\<forall>x. n = Fin x \<longrightarrow>
          pct_of n = Fin (of_int (max 0 (min 100 \<lfloor>x + 1 / 2\<rfloor>))) \<and>
          \<bar>of_int \<lfloor>x + 1 / 2\<rfloor> - x\<bar> \<le> 1 / 2"
      by (intro allI impI conjI) (simp add: pct_of_Fin, rule round_nearest)
    have inf: "n = PosInf \<longrightarrow> pct_of n = Fin 100" "n = NegInf \<longrightarrow> pct_of n = Fin 0"
      by (simp_all add: pct_of_inf)
    have rng: "n \<noteq> NaN \<longrightarrow>
           (\<exists>k. 0 \<le> k \<and> k \<le> 100 \<and> pct_of n = Fin (of_int k) \<and>
                scorePct (onCheck h run p) = setText_str (scorePct p) (int_to_string k @ js ''%'') \<and>
                scoreBar (onCheck h run p) =
                  map_option (\<lambda>e. e\<lparr>el_width := int_to_string k @ js ''%''\<rparr>) (scoreBar p))"
    proof
      assume "n \<noteq> NaN"
      then obtain k where k: "0 \<le> k" "k \<le> 100" "pct_of n = Fin (of_int k)"
        "pct_text h (pct_of n) = int_to_string k @ js ''%''"
        using pct_of_range [of n h] by blast
      have "scorePct (onCheck h run p) = setText_str (scorePct p) (int_to_string k @ js ''%'')"
        using label k(4) by simp
      moreover have "scoreBar (onCheck h run p) =
          map_option (\<lambda>e. e\<lparr>el_width := int_to_string k @ js ''%''\<rparr>) (scoreBar p)"
        using bar k(4) bar_shown [OF k(1), of "scoreBar p"] by simp
      ultimately show "\<exists>k. 0 \<le> k \<and> k \<le> 100 \<and> pct_of n = Fin (of_int k) \<and>
                scorePct (onCheck h run p) = setText_str (scorePct p) (int_to_string k @ js ''%'') \<and>
                scoreBar (onCheck h run p) =
                  map_option (\<lambda>e. e\<lparr>el_width := int_to_string k @ js ''%''\<rparr>) (scoreBar p)"
        using k(1-3) by blast
    qed
    have nan: "n = NaN \<longrightarrow>
           scorePct (onCheck h run p) = setText_str (scorePct p) (js ''NaN%'') \<and>
           scoreBar (onCheck h run p) = set_width (scoreBar p) (js ''0%'')"
      using label bar by (simp add: pct_text_NaN bar_kept)
    show "Number h (score_field (cr_data c)) = Inr n \<and>
        scorePct (onCheck h run p) = setText_str (scorePct p) (pct_text h (pct_of n)) \<and>
        scoreBar (onCheck h run p) =
          set_width (set_width (scoreBar p) (js ''0%'')) (pct_text h (pct_of n)) \<and>
        (\<forall>x. n = Fin x \<longrightarrow>
             pct_of n = Fin (of_int (max 0 (min 100 \<lfloor>x + 1 / 2\<rfloor>))) \<and>
             \<bar>of_int \<lfloor>x + 1 / 2\<rfloor> - x\<bar> \<le> 1 / 2) \<and>
        (n = PosInf \<longrightarrow> pct_of n = Fin 100) \<and>
        (n = NegInf \<longrightarrow> pct_of n = Fin 0) \<and>
        (n \<noteq> NaN \<longrightarrow>
           (\<exists>k. 0 \<le> k \<and> k \<le> 100 \<and> pct_of n = Fin (of_int k) \<and>
                scorePct (onCheck h run p) = setText_str (scorePct p) (int_to_string k @ js ''%'') \<and>
                scoreBar (onCheck h run p) =
                  map_option (\<lambda>e. e\<lparr>el_width := int_to_string k @ js ''%''\<rparr>) (scoreBar p))) \<and>
        (n = NaN \<longrightarrow>
           scorePct (onCheck h run p) = setText_str (scorePct p) (js ''NaN%'') \<and>
           scoreBar (onCheck h run p) = set_width (scoreBar p) (js ''0%''))"
      by (intro conjI) (rule num, rule label, rule bar, rule rnd, rule inf(1), rule inf(2), rule rng, rule nan)
  qed
  have unwritten: "written_score h p ?d = None \<longrightarrow>
       scorePct (onCheck h run p) = setText_str (scorePct p) [0x2014] \<and>
       scoreBar (onCheck h run p) = set_width (scoreBar p) (js ''0%'')"
    using shown by simp
  have coerce: "\<forall>x. score_field ?d = Some (JNum x) \<longrightarrow> Number h (score_field ?d) = Inr x"
    "\<forall>t. score_field ?d = Some (JStr t) \<longrightarrow> Number h (score_field ?d) = Inr (StringToNumber h t)"
    "\<forall>b. score_field ?d = Some (JBool b) \<longrightarrow>
         Number h (score_field ?d) = Inr (if b then Fin 1 else Fin 0)"
    by (simp_all add: Number_JNum Number_cases)
  show ?thesis
    by (intro conjI)
       (rule written, rule unwritten, rule score_field_cases, rule coerce(1), rule coerce(2),
        rule coerce(3), rule pct_examples(1), rule pct_examples(2))
qed

theorem score_display_witness:
  "claim_of sky_page \<noteq> [] \<and>
   checkClaim (replying score_body score_value) (answer 200 score_body) =
     Inr \<lparr>cr_res = \<lparr>res_status = 200, res_statusText = [], res_body = Body score_body\<rparr>,
          cr_data = score_value, cr_raw = score_body\<rparr> \<and>
   written_score (replying score_body score_value) sky_page score_value = Some (Fin (1427 / 10)) \<and>
   scorePct (onCheck (replying score_body score_value) (answer 200 score_body) sky_page) =
     Some (blank\<lparr>el_content := Text (js ''100%'')\<rparr>) \<and>
   scoreBar (onCheck (replying score_body score_value) (answer 200 score_body) sky_page) =
     Some (blank\<lparr>el_width := js ''100%''\<rparr>) \<and>
   checkClaim (reading confidence_body confidence_value (js ''61.5'') (Fin (123 / 2)))
       (answer 200 confidence_body) =
     Inr \<lparr>cr_res = \<lparr>res_status = 200, res_statusText = [], res_body = Body confidence_body\<rparr>,
          cr_data = confidence_value, cr_raw = confidence_body\<rparr> \<and>
   written_score (reading confidence_body confidence_value (js ''61.5'') (Fin (123 / 2))) sky_page
       confidence_value = Some (Fin (123 / 2)) \<and>
   scorePct (onCheck (reading confidence_body confidence_value (js ''61.5'') (Fin (123 / 2)))
       (answer 200 confidence_body) sky_page) =
     Some (blank\<lparr>el_content := Text (js ''62%'')\<rparr>) \<and>
   scoreBar (onCheck (reading confidence_body confidence_value (js ''61.5'') (Fin (123 / 2)))
       (answer 200 confidence_body) sky_page) =
     Some (blank\<lparr>el_width := js ''62%''\<rparr>)"
proof -
  let ?h = "replying score_body score_value"
  let ?c = "\<lparr>cr_res = \<lparr>res_status = 200, res_statusText = [], res_body = Body score_body\<rparr>,
          cr_data = score_value, cr_raw = score_body\<rparr>"
  let ?g = "reading confidence_body confidence_value (js ''61.5'') (Fin (123 / 2))"
  let ?b = "\<lparr>cr_res = \<lparr>res_status = 200, res_statusText = [], res_body = Body confidence_body\<rparr>,
          cr_data = confidence_value, cr_raw = confidence_body\<rparr>"
  have claim: "claim_of sky_page \<noteq> []" by (simp add: claim_of_sky)
  have fetched: "checkClaim ?h (answer 200 score_body) = Inr ?c" by (rule checkClaim_answer)
  have ok: "res_ok (cr_res ?c)" by (simp add: res_ok_200)
  have unmarked: "\<not> truthy (get_prop (cr_data ?c) (js ''error''))"
    by (simp add: score_value_facts truthy_def)
  have w: "written_score ?h sky_page (cr_data ?c) = Some (Fin (1427 / 10))"
    by (simp add: score_value_written)
  note shown = score_display [OF claim fetched ok unmarked]
  have first: "scorePct (onCheck ?h (answer 200 score_body) sky_page) =
     Some (blank\<lparr>el_content := Text (js ''100%'')\<rparr>)"
    "scoreBar (onCheck ?h (answer 200 score_body) sky_page) =
     Some (blank\<lparr>el_width := js ''100%''\<rparr>)"
    using shown w pct_examples [of ?h]
    by (simp_all add: sky_fields setText_str_def set_width_def css_width_100)
  have fetched': "checkClaim ?g (answer 200 confidence_body) = Inr ?b" by (rule checkClaim_reading)
  have ok': "res_ok (cr_res ?b)" by (simp add: res_ok_200)
  have unmarked': "\<not> truthy (get_prop (cr_data ?b) (js ''error''))"
    by (simp add: confidence_value_facts truthy_def)
  have w': "written_score ?g sky_page (cr_data ?b) = Some (Fin (123 / 2))"
    by (simp add: confidence_value_facts)
  note shown' = score_display [OF claim fetched' ok' unmarked']
  have second: "scorePct (onCheck ?g (answer 200 confidence_body) sky_page) =
     Some (blank\<lparr>el_content := Text (js ''62%'')\<rparr>)"
    "scoreBar (onCheck ?g (answer 200 confidence_body) sky_page) =
     Some (blank\<lparr>el_width := js ''62%''\<rparr>)"
    using shown' w' pct_62 [of ?g]
    by (simp_all add: sky_fields setText_str_def set_width_def css_width_62)
  show ?thesis
    using claim fetched w first fetched' w' second by simp
qed











text \<open>
  C8. When the deadline of 20000 ms passes before \<open>fetch\<close> settles, \<open>fetchWithTimeout\<close>
  fails with the error named \<open>AbortError\<close> and the handler shows
  \<open>Request timed out\<close> as status text and badge; when \<open>fetch\<close> fails before the
  deadline with a network failure, it fails with that TypeError and the handler shows
  \<open>Failed to fetch\<close>. The two errors have different names and the two messages differ.
\<close>

theorem timeout_and_network_failure_differ:
  assumes "claim_of p \<noteq> []"
  shows
   "(run = Hangs \<or> (\<exists>t r. run = Responds t r \<and> FETCH_TIMEOUT_MS \<le> t) \<or>
       (\<exists>t m. run = Fails t m \<and> FETCH_TIMEOUT_MS \<le> t) \<longrightarrow>
       fetchWithTimeout h run FETCH_TIMEOUT_MS = Inl (AbortError h) \<and>
       apiStatus (onCheck h run p) =
         setText_str (map_option (mark St_error) (apiStatus p)) (js ''Request timed out'') \<and>
       resultTitle (onCheck h run p) = setText_str (resultTitle p) (js ''Error'') \<and>
       resultBadge (onCheck h run p) = setText_str (resultBadge p) (js ''Request timed out'')) \<and>
    (\<forall>t m. run = Fails t m \<and> t < FETCH_TIMEOUT_MS \<longrightarrow>
       fetchWithTimeout h run FETCH_TIMEOUT_MS = Inl (network_error m) \<and>
       apiStatus (onCheck h run p) =
         setText_str (map_option (mark St_error) (apiStatus p)) (js ''Failed to fetch'') \<and>
       resultTitle (onCheck h run p) = setText_str (resultTitle p) (js ''Error'') \<and>
       resultBadge (onCheck h run p) = setText_str (resultBadge p) (js ''Failed to fetch'')) \<and>
    err_name (AbortError h) \<noteq> err_name (network_error m') \<and>
    js ''Request timed out'' \<noteq> js ''Failed to fetch''"
proof -
  have timed: "fetchWithTimeout h run FETCH_TIMEOUT_MS = Inl (AbortError h) \<and>
       apiStatus (onCheck h run p) =
         setText_str (map_option (mark St_error) (apiStatus p)) (js ''Request timed out'') \<and>
       resultTitle (onCheck h run p) = setText_str (resultTitle p) (js ''Error'') \<and>
       resultBadge (onCheck h run p) = setText_str (resultBadge p) (js ''Request timed out'')"
    if "run = Hangs \<or> (\<exists>t r. run = Responds t r \<and> FETCH_TIMEOUT_MS \<le> t) \<or>
       (\<exists>t m. run = Fails t m \<and> FETCH_TIMEOUT_MS \<le> t)"
    using fetch_timed_out [OF that, of h] onCheck_rejected [OF assms, of h run "AbortError h"]
    by (simp add: catch_check_fields catch_message_cases checking_state_fields el_simps)
  have failed: "fetchWithTimeout h run FETCH_TIMEOUT_MS = Inl (network_error m) \<and>
       apiStatus (onCheck h run p) =
         setText_str (map_option (mark St_error) (apiStatus p)) (js ''Failed to fetch'') \<and>
       resultTitle (onCheck h run p) = setText_str (resultTitle p) (js ''Error'') \<and>
       resultBadge (onCheck h run p) = setText_str (resultBadge p) (js ''Failed to fetch'')"
    if "run = Fails t m" "t < FETCH_TIMEOUT_MS" for t m
    using fetch_failed [OF that, of h] onCheck_rejected [OF assms, of h run "network_error m"]
    by (simp add: catch_check_fields catch_message_cases checking_state_fields el_simps)
  show ?thesis
    using timed failed catch_message_cases(3) catch_message_cases(4) [of h m'] by blast
qed

theorem timeout_and_network_failure_differ_witness:
  "fetchWithTimeout silent Hangs FETCH_TIMEOUT_MS = Inl (AbortError silent) \<and>
   resultBadge (onCheck silent Hangs sky_page) =
     Some (blank\<lparr>el_content := Text (js ''Request timed out'')\<rparr>) \<and>
   resultBadge (onCheck silent (Responds 20000 \<lparr>res_status = 200, res_statusText = [],
        res_body = Body score_body\<rparr>) sky_page) =
     Some (blank\<lparr>el_content := Text (js ''Request timed out'')\<rparr>) \<and>
   fetchWithTimeout silent (Fails 30 (js ''Failed to fetch'')) FETCH_TIMEOUT_MS =
     Inl (network_error (js ''Failed to fetch'')) \<and>
   resultBadge (onCheck silent (Fails 30 (js ''Failed to fetch'')) sky_page) =
     Some (blank\<lparr>el_content := Text (js ''Failed to fetch'')\<rparr>)"
proof -
  have claim: "claim_of sky_page \<noteq> []" by (simp add: claim_of_sky)
  show ?thesis
    using timeout_and_network_failure_differ [OF claim, of Hangs silent]
      timeout_and_network_failure_differ [OF claim,
        of "Responds 20000 \<lparr>res_status = 200, res_statusText = [], res_body = Body score_body\<rparr>" silent]
      timeout_and_network_failure_differ [OF claim, of "Fails 30 (js ''Failed to fetch'')" silent]
    by (simp add: FETCH_TIMEOUT_MS_def sky_fields setText_str_def)
qed

text \<open>
  C9 as stated fails for the clear action: after the probe has found the service
  reachable, a click on the clear button changes the indicator from \<open>ok\<close> and
  \<open>API: reachable\<close> to no state class and \<open>API: not checked\<close>.
\<close>

theorem connectivity_counterexample:
  "apiStatus (probe silent (answer 200 []) sky_page) =
     Some (blank\<lparr>el_content := Text (js ''API: reachable''), el_classes := [js ''ok'']\<rparr>) \<and>
   apiStatus (onClear (probe silent (answer 200 []) sky_page)) =
     Some (blank\<lparr>el_content := Text (js ''API: not checked''), el_classes := []\<rparr>) \<and>
   connectivity (onClear (probe silent (answer 200 []) sky_page)) \<noteq>
     connectivity (probe silent (answer 200 []) sky_page)"
proof -
  have before: "apiStatus (probe silent (answer 200 []) sky_page) =
     Some (blank\<lparr>el_content := Text (js ''API: reachable''), el_classes := [js ''ok'']\<rparr>)"
    by (simp add: probe_reachable setStatus_def sky_fields setText_str_def mark_def
        remove_state_classes_def class_add_def state_name_def blank_def js_def)
  have after: "apiStatus (onClear (probe silent (answer 200 []) sky_page)) =
     Some (blank\<lparr>el_content := Text (js ''API: not checked''), el_classes := []\<rparr>)"
    by (simp add: probe_reachable onClear_def Let_def setStatus_def sky_fields setText_str_def mark_def
        remove_state_classes_def class_add_def state_name_def blank_def js_def)
  have "apiStatus (onClear (probe silent (answer 200 []) sky_page)) \<noteq>
      apiStatus (probe silent (answer 200 []) sky_page)"
    unfolding before after by (simp add: blank_def)
  then show ?thesis
    using before after by (auto simp: connectivity_def)
qed

text \<open>
  C9, as amended. A click on the debug toggle and a click on an example button leave
  the connectivity state as it is. A click on the clear button writes it: the indicator
  is set to idle with the text \<open>API: not checked\<close>, as \<open>setStatus\<close> does. (The probe
  and the check handler write it through \<open>setStatus\<close> as well.)
\<close>

theorem connectivity_writers:
  "connectivity (onDebugToggle p) = connectivity p \<and>
   connectivity (fst (onExample h a p)) = connectivity p \<and>
   connectivity (onClear p) =
     (map_option (mark St_idle) (apiPill p),
      setText_str (map_option (mark St_idle) (apiStatus p)) (js ''API: not checked'')) \<and>
   connectivity (onClear p) = connectivity (setStatus p St_idle (js ''API: not checked''))"
proof -
  have toggle: "connectivity (onDebugToggle p) = connectivity p"
    by (simp add: onDebugToggle_def connectivity_def split: option.splits)
  have example: "connectivity (fst (onExample h a p)) = connectivity p"
    by (simp add: onExample_def connectivity_def Let_def split: option.splits)
  have clear: "connectivity (onClear p) = connectivity (setStatus p St_idle (js ''API: not checked''))"
    by (simp add: onClear_def connectivity_def Let_def setStatus_def)
  have "js ''API: not checked'' \<noteq> []" by (simp add: js_def)
  then show ?thesis
    using toggle example clear by (simp add: connectivity_setStatus)
qed

theorem connectivity_writers_witness:
  "connectivity (onDebugToggle sky_page) = (Some blank, Some blank) \<and>
   connectivity (fst (onExample silent (Some (js ''Water boils at 100 C | https://a.example/x'')) sky_page))
     = (Some blank, Some blank) \<and>
   connectivity (onClear sky_page) =
     (Some (mark St_idle blank), Some ((mark St_idle blank)\<lparr>el_content := Text (js ''API: not checked'')\<rparr>))"
  using connectivity_writers [of sky_page silent "Some (js ''Water boils at 100 C | https://a.example/x'')"]
  by (simp add: connectivity_def sky_fields setText_str_def)

text \<open>
  C10. When a check ends in the error state, because the fetch or the reading of the body
  failed (a network failure or the timeout), or the status was not successful, or the
  body carried an error marker, the width of the score bar and the text of the
  percentage are what the checking state set, \<open>0%\<close> and a dash. The error branches
  write the indicator, the title, the badge, the explanation list, the citations area
  and the debug box, and nothing else: the score label, the two inputs and the focus
  are as before the click.
\<close>

theorem error_keeps_score:
  assumes "claim_of p \<noteq> []"
    and "(\<exists>e. checkClaim h run = Inl e) \<or>
         (\<exists>c. checkClaim h run = Inr c \<and>
              (\<not> res_ok (cr_res c) \<or> truthy (get_prop (cr_data c) (js ''error''))))"
  shows
   "scoreBar (onCheck h run p) = set_width (scoreBar p) (js ''0%'') \<and>
    scorePct (onCheck h run p) = setText_str (scorePct p) [0x2014] \<and>
    scoreBar (onCheck h run p) = scoreBar (checking_state p) \<and>
    scorePct (onCheck h run p) = scorePct (checking_state p) \<and>
    scoreLabel (onCheck h run p) = scoreLabel p \<and>
    claimInput (onCheck h run p) = claimInput p \<and>
    evidenceInput (onCheck h run p) = evidenceInput p \<and>
    claim_focused (onCheck h run p) = claim_focused p"
proof -
  let ?q = "checking_state p"
  let ?r = "try_check h run (claim_of p) (evidence_of p) ?q"
  have kept: "scoreBar (fst ?r) = scoreBar ?q \<and> scorePct (fst ?r) = scorePct ?q \<and>
     scoreLabel (fst ?r) = scoreLabel ?q \<and> claimInput (fst ?r) = claimInput ?q \<and>
     evidenceInput (fst ?r) = evidenceInput ?q \<and> claim_focused (fst ?r) = claim_focused ?q"
  proof -
    from assms(2) consider
        (net) e where "checkClaim h run = Inl e"
      | (http) c where "checkClaim h run = Inr c" "\<not> res_ok (cr_res c)"
      | (payload) c where "checkClaim h run = Inr c" "res_ok (cr_res c)"
          "truthy (get_prop (cr_data c) (js ''error''))"
      by blast
    then show ?thesis
    proof cases
      case net
      then show ?thesis by (simp add: try_check_def)
    next
      case http
      then show ?thesis by (simp add: try_check_def http_error_fields)
    next
      case payload
      then show ?thesis by (simp add: try_check_def payload_error_fields)
    qed
  qed
  have "onCheck h run p = (case ?r of (p', None) \<Rightarrow> p' | (p', Some e) \<Rightarrow> catch_check e p')"
    using assms(1) by (simp add: onCheck_def)
  then show ?thesis
    using kept
    by (auto simp: catch_check_fields checking_state_fields split: prod.splits option.splits)
qed

theorem error_keeps_score_witness:
  "(\<exists>e. checkClaim silent Hangs = Inl e) \<and>
   scoreBar (onCheck silent Hangs sky_page) = Some (blank\<lparr>el_width := js ''0%''\<rparr>) \<and>
   scorePct (onCheck silent Hangs sky_page) = Some (blank\<lparr>el_content := Text [0x2014]\<rparr>) \<and>
   scoreBar (onCheck silent (answer 500 html_body) sky_page) = Some (blank\<lparr>el_width := js ''0%''\<rparr>) \<and>
   scorePct (onCheck silent (answer 200 html_body) sky_page) = Some (blank\<lparr>el_content := Text [0x2014]\<rparr>)"
proof -
  have claim: "claim_of sky_page \<noteq> []" by (simp add: claim_of_sky)
  have hangs: "\<exists>e. checkClaim silent Hangs = Inl e"
    by (simp add: checkClaim_def fetchWithTimeout_def)
  have http: "\<exists>c. checkClaim silent (answer 500 html_body) = Inr c \<and>
              (\<not> res_ok (cr_res c) \<or> truthy (get_prop (cr_data c) (js ''error'')))"
    by (simp add: checkClaim_silent res_ok_def)
  have payload: "\<exists>c. checkClaim silent (answer 200 html_body) = Inr c \<and>
              (\<not> res_ok (cr_res c) \<or> truthy (get_prop (cr_data c) (js ''error'')))"
    by (simp add: checkClaim_silent bad_response_marked res_ok_200)
  show ?thesis
    using hangs error_keeps_score [OF claim disjI1 [OF hangs]]
      error_keeps_score [OF claim disjI2 [OF http]]
      error_keeps_score [OF claim disjI2 [OF payload]]
    by (simp add: sky_fields set_width_def setText_str_def)
qed

end
